theory Spec2Isabelle
  imports Main
begin

section \<open>Python strings and POSIX paths\<close>

text \<open>
  A Python \<open>str\<close> is a sequence of Unicode code points; it is modelled as a list of
  natural numbers, so that \<open>ord c\<close> is the element itself. Literals are written
  \<open>str ''...''\<close>.
\<close>

type_synonym pystr = "nat list"

definition str :: "string \<Rightarrow> pystr" where
  "str cs = map of_char cs"

text \<open>
  \<open>s.lower()\<close>. The letters A..Z are mapped to a..z. Code points from 128 on are left
  as they are: the case tables of the runtime are not part of the repository, and no
  code point outside A..Z lowercases to a dot, a slash or a letter of the extensions
  \<open>.doc\<close>, \<open>.docx\<close>, \<open>.pdf\<close>, which is all the program compares a lowercased
  string with.
\<close>

definition py_lower_char :: "nat \<Rightarrow> nat" where
  "py_lower_char c = (if 65 \<le> c \<and> c \<le> 90 then c + 32 else c)"

definition py_lower :: "pystr \<Rightarrow> pystr" where
  "py_lower s = map py_lower_char s"

text \<open>\<open>s.endswith(suf)\<close>; with a tuple argument the source tests each member.\<close>

definition py_endswith :: "pystr \<Rightarrow> pystr \<Rightarrow> bool" where
  "py_endswith s suf = (length suf \<le> length s \<and> drop (length s - length suf) s = suf)"

text \<open>
  The code points for which \<open>str.isspace\<close> holds, which are the ones \<open>str.strip()\<close>
  removes at both ends.
\<close>

definition py_isspace :: "nat \<Rightarrow> bool" where
  "py_isspace c = ((9 \<le> c \<and> c \<le> 13) \<or> (28 \<le> c \<and> c \<le> 32) \<or> c = 133 \<or> c = 160
     \<or> c = 5760 \<or> (8192 \<le> c \<and> c \<le> 8202) \<or> c = 8232 \<or> c = 8233 \<or> c = 8239
     \<or> c = 8287 \<or> c = 12288)"

definition py_strip :: "pystr \<Rightarrow> pystr" where
  "py_strip s = rev (dropWhile py_isspace (rev (dropWhile py_isspace s)))"

text \<open>\<open>s.split(sep)\<close> for a one-character separator: never the empty list.\<close>

fun py_split :: "nat \<Rightarrow> pystr \<Rightarrow> pystr list" where
  "py_split sep [] = [[]]"
| "py_split sep (c # cs) =
     (if c = sep then [] # py_split sep cs
      else (case py_split sep cs of
              [] \<Rightarrow> [[c]]
            | x # xs \<Rightarrow> (c # x) # xs))"

text \<open>\<open>s.rfind(c)\<close>: the index of the last occurrence, \<open>None\<close> for Python's \<open>-1\<close>.\<close>

definition py_rfind :: "nat \<Rightarrow> pystr \<Rightarrow> nat option" where
  "py_rfind c s =
     (let k = length (takeWhile (\<lambda>x. x \<noteq> c) (rev s))
      in if k = length s then None else Some (length s - 1 - k))"

text \<open>
  \<open>pathlib\<close> on a POSIX system (the semantics of Python up to 3.13). A path is parsed
  into its root and its components; empty components and \<open>.\<close> are dropped. \<open>name\<close> is
  the last component, \<open>suffix\<close> starts at the last dot of the name unless that dot is
  the first or the last character, \<open>stem\<close> is the name without the suffix.
\<close>

definition path_parts :: "pystr \<Rightarrow> pystr list" where
  "path_parts p = filter (\<lambda>x. x \<noteq> [] \<and> x \<noteq> str ''.'') (py_split 47 p)"

definition path_root :: "pystr \<Rightarrow> pystr" where
  "path_root p =
     (if take 1 p \<noteq> str ''/'' then []
      else if take 2 p = str ''//'' \<and> take 3 p \<noteq> str ''///'' then str ''//''
      else str ''/'')"

fun join_parts :: "pystr list \<Rightarrow> pystr" where
  "join_parts [] = []"
| "join_parts [x] = x"
| "join_parts (x # y # ys) = x @ str ''/'' @ join_parts (y # ys)"

definition path_str :: "pystr \<Rightarrow> pystr" where
  "path_str p =
     (if path_root p = [] \<and> path_parts p = [] then str ''.''
      else path_root p @ join_parts (path_parts p))"

text \<open>\<open>str(Path(a) / b)\<close>: an absolute right operand replaces the left one.\<close>

definition path_join :: "pystr \<Rightarrow> pystr \<Rightarrow> pystr" where
  "path_join a b =
     (if take 1 b = str ''/'' then path_str b else path_str (a @ str ''/'' @ b))"

definition path_name :: "pystr \<Rightarrow> pystr" where
  "path_name p = (if path_parts p = [] then [] else last (path_parts p))"

definition path_suffix :: "pystr \<Rightarrow> pystr" where
  "path_suffix p =
     (let name = path_name p
      in case py_rfind 46 name of
           None \<Rightarrow> []
         | Some i \<Rightarrow> if 0 < i \<and> i + 1 < length name then drop i name else [])"

definition path_stem :: "pystr \<Rightarrow> pystr" where
  "path_stem p =
     (let name = path_name p
      in case py_rfind 46 name of
           None \<Rightarrow> name
         | Some i \<Rightarrow> if 0 < i \<and> i + 1 < length name then take i name else name)"

section \<open>The world the program acts on\<close>

text \<open>
  Exceptions are values. The constructors are the classes the handlers tell apart
  (\<open>FileNotFoundError\<close>, \<open>ValueError\<close>) and some of the classes that only
  \<open>except Exception\<close> catches; the messages of the exceptions are left out.
\<close>

datatype error =
    FileNotFoundError
  | ValueError
  | TypeError
  | OSError
  | TelegramError
  | LibraryError

text \<open>
  A file holds a Word document (the texts of its paragraphs), a PDF (its text blocks, one
  per \<open>multi_cell\<close> call), or bytes that are neither, such as a file whose writing broke
  off. The file system maps a path, as the program passes it to the operating system, to
  what is there.
\<close>

datatype content = WordDoc "pystr list" | PdfDoc "pystr list" | Partial

datatype node = File content | Dir

text \<open>
  The messages the bot sends with \<open>reply_text\<close>, by the source line of the call:
  \<open>SendADocument\<close> (83), \<open>SelectFirst\<close> (88), \<open>NeedFileName\<close> (99),
  \<open>WordExtension\<close> (107), \<open>PdfExtension\<close> (114), \<open>TooLarge\<close> (123),
  \<open>Converting\<close> (150), \<open>CouldNotProcess\<close> (183), \<open>WrongFileType\<close> (188),
  \<open>GenericFailure\<close> (194), \<open>PromptWord\<close> (70), \<open>PromptPdf\<close> (75).
\<close>

datatype reply =
    SendADocument | SelectFirst | NeedFileName | WordExtension | PdfExtension | TooLarge
  | Converting | CouldNotProcess | WrongFileType | GenericFailure | PromptWord | PromptPdf

datatype caption = PdfCaption | WordCaption

text \<open>The \<open>logger.error\<close> calls; \<open>info\<close> and \<open>debug\<close> lines are not recorded.\<close>

datatype logged =
    WordToPdfFailed error
  | PdfToWordFailed error
  | InputFileSize pystr
  | CleanupFailed pystr error
  | FileNotFoundLogged
  | ValidationLogged
  | ProcessingLogged error

text \<open>
  What the program does to the outside, in order: messages and files sent, requests to
  the chat platform, deletions asked of the operating system, error log lines.
\<close>

datatype event =
    Reply reply
  | AnswerCallback
  | Mkdir pystr
  | GetFile pystr
  | Download pystr
  | SendDocument int pystr content caption
  | Remove pystr
  | LogError logged

record state =
  user_data :: "pystr \<rightharpoonup> pystr"
  fs :: "pystr \<rightharpoonup> node"
  trace :: "event list"

text \<open>
  How a call that writes a file ends: the file is written; the call returns without a
  file (the source checks for this after the download and after each conversion); or the
  call raises, leaving a broken file behind or not.
\<close>

datatype write_outcome = WriteOk | WriteNothing | WriteFailed error bool

text \<open>
  The behaviour of the collaborators during one event, which the program does not
  decide: whether a request to the chat platform raises, what the download delivers,
  how the libraries' writers end, which deletions the operating system refuses.
\<close>

record env =
  reply_outcome :: "reply \<Rightarrow> error option"
  answer_outcome :: "error option"
  mkdir_outcome :: "error option"
  get_file_outcome :: "error option"
  download_outcome :: write_outcome
  download_content :: content
  pdf_output_outcome :: write_outcome
  pdf2docx_outcome :: write_outcome
  pdf2docx_engine :: "pystr list \<Rightarrow> pystr list"
  send_outcome :: "error option"
  remove_outcome :: "pystr \<Rightarrow> error option"

definition emit :: "event \<Rightarrow> state \<Rightarrow> state" where
  "emit e s = s\<lparr>trace := trace s @ [e]\<rparr>"

definition os_path_exists :: "state \<Rightarrow> pystr \<Rightarrow> bool" where
  "os_path_exists s p = (fs s p \<noteq> None)"

definition write_file :: "write_outcome \<Rightarrow> pystr \<Rightarrow> content \<Rightarrow> state \<Rightarrow> error option \<times> state" where
  "write_file w p c s =
     (case w of
        WriteOk \<Rightarrow> (None, s\<lparr>fs := (fs s)(p \<mapsto> File c)\<rparr>)
      | WriteNothing \<Rightarrow> (None, s)
      | WriteFailed e broken \<Rightarrow>
          (Some e, if broken then s\<lparr>fs := (fs s)(p \<mapsto> File Partial)\<rparr> else s))"

text \<open>
  \<open>os.remove\<close>: raises for a missing path, for a directory, and when the operating
  system refuses the deletion; otherwise the path is gone.
\<close>

definition os_remove :: "env \<Rightarrow> pystr \<Rightarrow> state \<Rightarrow> error option \<times> state" where
  "os_remove env p s =
     (let s1 = emit (Remove p) s
      in case fs s p of
           None \<Rightarrow> (Some FileNotFoundError, s1)
         | Some Dir \<Rightarrow> (Some OSError, s1)
         | Some (File c) \<Rightarrow>
             (case remove_outcome env p of
                Some e \<Rightarrow> (Some e, s1)
              | None \<Rightarrow> (None, s1\<lparr>fs := (fs s1)(p := None)\<rparr>)))"

definition reply_text :: "env \<Rightarrow> reply \<Rightarrow> state \<Rightarrow> error option \<times> state" where
  "reply_text env m s = (reply_outcome env m, emit (Reply m) s)"

section \<open>The conversion service (file_converter.py)\<close>

text \<open>
  The object holds the scratch directory its constructor computed,
  \<open>Path(os.getcwd()) / "temp"\<close>.
\<close>

record FileConverter =
  temp_dir :: pystr

text \<open>
  The libraries: \<open>Document(path)\<close> gives the paragraphs of a Word file and raises on
  anything else; \<open>multi_cell\<close> adds one text block to the PDF under construction;
  the PDF-to-Word engine reads a PDF and writes a Word file, and raises on anything else.
\<close>

definition docx_Document :: "state \<Rightarrow> pystr \<Rightarrow> error + pystr list" where
  "docx_Document s p =
     (case fs s p of
        Some (File (WordDoc paragraphs)) \<Rightarrow> Inr paragraphs
      | _ \<Rightarrow> Inl LibraryError)"

definition multi_cell :: "pystr list \<Rightarrow> pystr \<Rightarrow> pystr list" where
  "multi_cell pdf txt = pdf @ [txt]"

definition pdf2docx_convert :: "env \<Rightarrow> pystr \<Rightarrow> pystr \<Rightarrow> state \<Rightarrow> error option \<times> state" where
  "pdf2docx_convert env p out s =
     (case fs s p of
        Some (File (PdfDoc blocks)) \<Rightarrow>
          write_file (pdf2docx_outcome env) out (WordDoc (pdf2docx_engine env blocks)) s
      | _ \<Rightarrow> (Some LibraryError, s))"

text \<open>The loop over \<open>doc.paragraphs\<close> (lines 54 to 58).\<close>

fun process_paragraphs :: "pystr list \<Rightarrow> pystr list \<Rightarrow> pystr list" where
  "process_paragraphs pdf [] = pdf"
| "process_paragraphs pdf (text # rest) =
     process_paragraphs
       (if py_strip text \<noteq> []
        then multi_cell pdf (filter (\<lambda>c. c < 128) text)
        else pdf)
       rest"

text \<open>The extension tests of the two converters (lines 27 to 28 and 83 to 84).\<close>

definition word_extension_valid :: "pystr \<Rightarrow> bool" where
  "word_extension_valid word_file_path =
     (let file_ext = py_lower (path_suffix word_file_path)
      in file_ext \<in> set [str ''.doc'', str ''.docx''])"

definition pdf_extension_valid :: "pystr \<Rightarrow> bool" where
  "pdf_extension_valid pdf_file_path =
     (let file_ext = py_lower (path_suffix pdf_file_path)
      in file_ext = str ''.pdf'')"

text \<open>The body of the \<open>try\<close> of \<open>word_to_pdf\<close> (lines 24 to 70).\<close>

definition word_to_pdf_try ::
  "FileConverter \<Rightarrow> env \<Rightarrow> pystr \<Rightarrow> state \<Rightarrow> (error + pystr) \<times> state" where
  "word_to_pdf_try self env word_file_path s =
     (if \<not> word_extension_valid word_file_path then (Inl ValueError, s)
      else if \<not> os_path_exists s word_file_path then (Inl FileNotFoundError, s)
      else (case docx_Document s word_file_path of
              Inl e \<Rightarrow> (Inl e, s)
            | Inr paragraphs \<Rightarrow>
                (let pdf = process_paragraphs [] paragraphs;
                     output_path =
                       path_join (temp_dir self) (path_stem word_file_path @ str ''.pdf'')
                 in case write_file (pdf_output_outcome env) output_path (PdfDoc pdf) s of
                      (Some e, s1) \<Rightarrow> (Inl e, s1)
                    | (None, s1) \<Rightarrow>
                        if \<not> os_path_exists s1 output_path
                        then (Inl FileNotFoundError, s1)
                        else (Inr output_path, s1))))"

text \<open>
  \<open>word_to_pdf\<close> with its handler (lines 71 to 75): the error is logged, the size of the
  input too when it exists, and the exception is raised again.
\<close>

definition word_to_pdf ::
  "FileConverter \<Rightarrow> env \<Rightarrow> pystr \<Rightarrow> state \<Rightarrow> (error + pystr) \<times> state" where
  "word_to_pdf self env word_file_path s =
     (case word_to_pdf_try self env word_file_path s of
        (Inl e, s1) \<Rightarrow>
          (let s2 = emit (LogError (WordToPdfFailed e)) s1
           in (Inl e,
               if os_path_exists s2 word_file_path
               then emit (LogError (InputFileSize word_file_path)) s2
               else s2))
      | (Inr output_path, s1) \<Rightarrow> (Inr output_path, s1))"

text \<open>The body of the \<open>try\<close> of \<open>pdf_to_word\<close> (lines 80 to 111).\<close>

definition pdf_to_word_try ::
  "FileConverter \<Rightarrow> env \<Rightarrow> pystr \<Rightarrow> state \<Rightarrow> (error + pystr) \<times> state" where
  "pdf_to_word_try self env pdf_file_path s =
     (if \<not> pdf_extension_valid pdf_file_path then (Inl ValueError, s)
      else if \<not> os_path_exists s pdf_file_path then (Inl FileNotFoundError, s)
      else (let output_path =
                  path_join (temp_dir self) (path_stem pdf_file_path @ str ''.docx'')
            in case pdf2docx_convert env pdf_file_path output_path s of
                 (Some e, s1) \<Rightarrow> (Inl e, s1)
               | (None, s1) \<Rightarrow>
                   if \<not> os_path_exists s1 output_path
                   then (Inl FileNotFoundError, s1)
                   else (Inr output_path, s1)))"

definition pdf_to_word ::
  "FileConverter \<Rightarrow> env \<Rightarrow> pystr \<Rightarrow> state \<Rightarrow> (error + pystr) \<times> state" where
  "pdf_to_word self env pdf_file_path s =
     (case pdf_to_word_try self env pdf_file_path s of
        (Inl e, s1) \<Rightarrow>
          (let s2 = emit (LogError (PdfToWordFailed e)) s1
           in (Inl e,
               if os_path_exists s2 pdf_file_path
               then emit (LogError (InputFileSize pdf_file_path)) s2
               else s2))
      | (Inr output_path, s1) \<Rightarrow> (Inr output_path, s1))"

text \<open>
  \<open>cleanup_temp_files\<close> (lines 118 to 125): the body of the \<open>try\<close>, then the handler,
  which catches every exception of the body and logs it.
\<close>

definition cleanup_temp_files_try :: "env \<Rightarrow> pystr \<Rightarrow> state \<Rightarrow> error option \<times> state" where
  "cleanup_temp_files_try env file_path s =
     (if os_path_exists s file_path then os_remove env file_path s else (None, s))"

definition cleanup_temp_files :: "env \<Rightarrow> pystr \<Rightarrow> state \<Rightarrow> error option \<times> state" where
  "cleanup_temp_files env file_path s =
     (case cleanup_temp_files_try env file_path s of
        (Some e, s1) \<Rightarrow> (None, emit (LogError (CleanupFailed file_path e)) s1)
      | (None, s1) \<Rightarrow> (None, s1))"

section \<open>The handlers (handlers.py)\<close>

record document =
  file_id :: pystr
  file_name :: "pystr option"
  file_size :: "int option"

record update =
  message_document :: "document option"
  effective_chat_id :: int

text \<open>
  \<open>button_callback\<close> (lines 64 to 78), on the payload \<open>query.data\<close>. The prompt is sent
  before the selection is stored, so an exception of \<open>reply_text\<close> leaves it unset.
\<close>

definition button_callback :: "env \<Rightarrow> pystr option \<Rightarrow> state \<Rightarrow> error option \<times> state" where
  "button_callback env data s =
     (case (answer_outcome env, emit AnswerCallback s) of
        (Some e, s1) \<Rightarrow> (Some e, s1)
      | (None, s1) \<Rightarrow>
          if data = Some (str ''word_to_pdf'') then
            (case reply_text env PromptWord s1 of
               (Some e, s2) \<Rightarrow> (Some e, s2)
             | (None, s2) \<Rightarrow>
                 (None, s2\<lparr>user_data :=
                    (user_data s2)(str ''conversion_type'' \<mapsto> str ''word_to_pdf'')\<rparr>))
          else if data = Some (str ''pdf_to_word'') then
            (case reply_text env PromptPdf s1 of
               (Some e, s2) \<Rightarrow> (Some e, s2)
             | (None, s2) \<Rightarrow>
                 (None, s2\<lparr>user_data :=
                    (user_data s2)(str ''conversion_type'' \<mapsto> str ''pdf_to_word'')\<rparr>))
          else (None, s1))"

text \<open>The calls of the \<open>try\<close> block of \<open>handle_document\<close> that leave the program.\<close>

definition mkdir_exist_ok :: "env \<Rightarrow> pystr \<Rightarrow> state \<Rightarrow> error option \<times> state" where
  "mkdir_exist_ok env p s =
     (let s1 = emit (Mkdir p) s
      in case mkdir_outcome env of
           Some e \<Rightarrow> (Some e, s1)
         | None \<Rightarrow>
             (case fs s1 p of
                Some (File c) \<Rightarrow> (Some OSError, s1)
              | Some Dir \<Rightarrow> (None, s1)
              | None \<Rightarrow> (None, s1\<lparr>fs := (fs s1)(p \<mapsto> Dir)\<rparr>)))"

definition get_file :: "env \<Rightarrow> pystr \<Rightarrow> state \<Rightarrow> error option \<times> state" where
  "get_file env fid s = (get_file_outcome env, emit (GetFile fid) s)"

definition download_to_drive :: "env \<Rightarrow> pystr \<Rightarrow> state \<Rightarrow> error option \<times> state" where
  "download_to_drive env p s =
     write_file (download_outcome env) p (download_content env) (emit (Download p) s)"

text \<open>\<open>send_document\<close> on \<open>open(output_path, 'rb')\<close>, which raises unless it is a file.\<close>

definition send_document ::
  "env \<Rightarrow> int \<Rightarrow> pystr \<Rightarrow> caption \<Rightarrow> state \<Rightarrow> error option \<times> state" where
  "send_document env chat output_path cap s =
     (case fs s output_path of
        Some (File c) \<Rightarrow>
          (send_outcome env, emit (SendDocument chat (path_name output_path) c cap) s)
      | _ \<Rightarrow> (Some OSError, s))"

text \<open>
  Lines 153 to 179: the conversion and the delivery. The result is the exception raised,
  if any, the value of \<open>output_path\<close> (assigned only when the converter has returned)
  and the state.
\<close>

definition convert_and_send ::
  "FileConverter \<Rightarrow> env \<Rightarrow> pystr \<Rightarrow> int \<Rightarrow> pystr \<Rightarrow> state
     \<Rightarrow> error option \<times> pystr option \<times> state" where
  "convert_and_send file_converter env conversion_type chat download_path s =
     (if conversion_type = str ''word_to_pdf'' then
        (case word_to_pdf file_converter env download_path s of
           (Inl e, s1) \<Rightarrow> (Some e, None, s1)
         | (Inr output_path, s1) \<Rightarrow>
             (case send_document env chat output_path PdfCaption s1 of
                (r, s2) \<Rightarrow> (r, Some output_path, s2)))
      else
        (case pdf_to_word file_converter env download_path s of
           (Inl e, s1) \<Rightarrow> (Some e, None, s1)
         | (Inr output_path, s1) \<Rightarrow>
             (case send_document env chat output_path WordCaption s1 of
                (r, s2) \<Rightarrow> (r, Some output_path, s2))))"

text \<open>
  The \<open>try\<close> block (lines 131 to 179). The result is the exception raised, if any, the
  values of \<open>download_path\<close> and \<open>output_path\<close> when the block is left, and the state.
\<close>

definition try_block ::
  "FileConverter \<Rightarrow> env \<Rightarrow> pystr \<Rightarrow> pystr \<Rightarrow> pystr \<Rightarrow> int \<Rightarrow> state
     \<Rightarrow> error option \<times> pystr option \<times> pystr option \<times> state" where
  "try_block file_converter env conversion_type name fid chat s =
     (let temp = str ''temp''
      in case mkdir_exist_ok env temp s of
           (Some e, s1) \<Rightarrow> (Some e, None, None, s1)
         | (None, s1) \<Rightarrow>
         (case get_file env fid s1 of
            (Some e, s2) \<Rightarrow> (Some e, None, None, s2)
          | (None, s2) \<Rightarrow>
          (let download_path = path_join temp name
           in case download_to_drive env download_path s2 of
                (Some e, s3) \<Rightarrow> (Some e, Some download_path, None, s3)
              | (None, s3) \<Rightarrow>
                  if \<not> os_path_exists s3 download_path
                  then (Some FileNotFoundError, Some download_path, None, s3)
                  else
                  (case reply_text env Converting s3 of
                     (Some e, s4) \<Rightarrow> (Some e, Some download_path, None, s4)
                   | (None, s4) \<Rightarrow>
                       (case convert_and_send file_converter env conversion_type chat
                               download_path s4 of
                          (r, output_path, s5) \<Rightarrow>
                            (r, Some download_path, output_path, s5))))))"

text \<open>The \<open>except\<close> clauses (lines 181 to 196); the reply of a clause can raise too.\<close>

definition except_clauses :: "env \<Rightarrow> error option \<Rightarrow> state \<Rightarrow> error option \<times> state" where
  "except_clauses env raised s =
     (case raised of
        None \<Rightarrow> (None, s)
      | Some e \<Rightarrow>
          if e = FileNotFoundError
          then reply_text env CouldNotProcess (emit (LogError FileNotFoundLogged) s)
          else if e = ValueError
          then reply_text env WrongFileType (emit (LogError ValidationLogged) s)
          else reply_text env GenericFailure (emit (LogError (ProcessingLogged e)) s))"

text \<open>The \<open>finally\<close> clause (lines 197 to 202).\<close>

definition cleanup_if_exists :: "env \<Rightarrow> pystr option \<Rightarrow> state \<Rightarrow> error option \<times> state" where
  "cleanup_if_exists env path s =
     (case path of
        None \<Rightarrow> (None, s)
      | Some p \<Rightarrow> if os_path_exists s p then cleanup_temp_files env p s else (None, s))"

definition finally_clause ::
  "env \<Rightarrow> pystr option \<Rightarrow> pystr option \<Rightarrow> state \<Rightarrow> error option \<times> state" where
  "finally_clause env download_path output_path s =
     (case cleanup_if_exists env download_path s of
        (Some e, s1) \<Rightarrow> (Some e, s1)
      | (None, s1) \<Rightarrow> cleanup_if_exists env output_path s1)"

text \<open>
  Lines 128 to 202: an exception that leaves an \<open>except\<close> clause is raised again after
  the \<open>finally\<close> clause, unless that one raises itself.
\<close>

definition transfer_job ::
  "FileConverter \<Rightarrow> env \<Rightarrow> pystr \<Rightarrow> pystr \<Rightarrow> pystr \<Rightarrow> int \<Rightarrow> state \<Rightarrow> error option \<times> state" where
  "transfer_job file_converter env conversion_type name fid chat s =
     (case try_block file_converter env conversion_type name fid chat s of
        (raised, download_path, output_path, s1) \<Rightarrow>
          (case except_clauses env raised s1 of
             (escaping, s2) \<Rightarrow>
               (case finally_clause env download_path output_path s2 of
                  (Some e, s3) \<Rightarrow> (Some e, s3)
                | (None, s3) \<Rightarrow> (escaping, s3))))"

text \<open>
  The extension test of the handler (lines 104 to 118): the message of the rejection, or
  \<open>None\<close> when the upload passes. A selection other than the two tokens passes.
\<close>

definition check_extension :: "pystr \<Rightarrow> pystr \<Rightarrow> reply option" where
  "check_extension conversion_type name =
     (if conversion_type = str ''word_to_pdf'' then
        (if \<not> (py_endswith (py_lower name) (str ''.doc'')
               \<or> py_endswith (py_lower name) (str ''.docx''))
         then Some WordExtension else None)
      else if conversion_type = str ''pdf_to_word'' then
        (if \<not> py_endswith (py_lower name) (str ''.pdf'')
         then Some PdfExtension else None)
      else None)"

text \<open>
  \<open>handle_document\<close> (lines 80 to 202). \<open>not x\<close> holds of \<open>None\<close> and of the empty
  string; comparing a missing \<open>file_size\<close> with a number raises \<open>TypeError\<close>.
\<close>

definition handle_document ::
  "FileConverter \<Rightarrow> env \<Rightarrow> update \<Rightarrow> state \<Rightarrow> error option \<times> state" where
  "handle_document file_converter env upd s =
     (case message_document upd of
        None \<Rightarrow> reply_text env SendADocument s
      | Some doc \<Rightarrow>
      (case user_data s (str ''conversion_type'') of
         None \<Rightarrow> reply_text env SelectFirst s
       | Some conversion_type \<Rightarrow>
           if conversion_type = [] then reply_text env SelectFirst s
           else
           (case file_name doc of
              None \<Rightarrow> reply_text env NeedFileName s
            | Some name \<Rightarrow>
                if name = [] then reply_text env NeedFileName s
                else
                (case check_extension conversion_type name of
                   Some rejection \<Rightarrow> reply_text env rejection s
                 | None \<Rightarrow>
                   (case file_size doc of
                      None \<Rightarrow> (Some TypeError, s)
                    | Some bytes \<Rightarrow>
                        if bytes > 20 * 1024 * 1024 then reply_text env TooLarge s
                        else transfer_job file_converter env conversion_type name
                               (file_id doc) (effective_chat_id upd) s)))))"

section \<open>Observations and the words of the specification\<close>

text \<open>The events a call has added to the trace.\<close>

definition emitted :: "state \<Rightarrow> state \<Rightarrow> event list" where
  "emitted s s' = drop (length (trace s)) (trace s')"

text \<open>
  The events of the \<open>try\<close> block and of the \<open>except\<close> clauses, and those of the
  \<open>finally\<close> clause.
\<close>

fun working_event :: "event \<Rightarrow> bool" where
  "working_event (Reply m) =
     (m \<in> set [Converting, CouldNotProcess, WrongFileType, GenericFailure])"
| "working_event AnswerCallback = False"
| "working_event (Remove p) = False"
| "working_event (Mkdir p) = True"
| "working_event (GetFile f) = True"
| "working_event (Download p) = True"
| "working_event (SendDocument chat n c cap) = True"
| "working_event (LogError l) = True"

fun cleanup_event :: "event \<Rightarrow> bool" where
  "cleanup_event (Remove p) = True"
| "cleanup_event (LogError (CleanupFailed p e)) = True"
| "cleanup_event ev = False"

definition job_step :: "state \<Rightarrow> state \<Rightarrow> bool" where
  "job_step s s' =
     (user_data s' = user_data s
      \<and> (\<exists>evs. trace s' = trace s @ evs \<and> list_all working_event evs))"

text \<open>
  The specification's reading of the text blocks: the 7-bit printable range is 32 to
  126, and a paragraph is skipped when stripping it leaves nothing.
\<close>

definition printable7 :: "nat \<Rightarrow> bool" where
  "printable7 c = (32 \<le> c \<and> c \<le> 126)"

definition spec_text_blocks :: "pystr list \<Rightarrow> pystr list" where
  "spec_text_blocks paragraphs =
     map (filter printable7) (filter (\<lambda>t. py_strip t \<noteq> []) paragraphs)"

section \<open>Concrete inputs\<close>

text \<open>
  The inputs the general theorems are instantiated with: a converter object, the three
  paragraphs of test_conversion.py, collaborators that never fail, collaborators whose
  operating system refuses every deletion, collaborators whose download breaks off
  leaving a broken file, an empty session on an empty file system, a
  session with a selection, a file system with one Word file, one whose Word file has a
  paragraph with a tab and a delete character between two letters, the upload of a named file of a given
  size, and the states in which two runs of the \<open>try\<close> block end.
\<close>

definition the_converter :: FileConverter where
  "the_converter = \<lparr>temp_dir = str ''/srv/temp''\<rparr>"

definition test_paragraphs :: "pystr list" where
  "test_paragraphs =
     [str ''This is a test document.'',
      str ''It contains multiple paragraphs.'',
      str ''Used for testing file conversion.'']"

definition calm :: env where
  "calm = \<lparr>reply_outcome = (\<lambda>m. None), answer_outcome = None, mkdir_outcome = None,
     get_file_outcome = None, download_outcome = WriteOk,
     download_content = WordDoc test_paragraphs, pdf_output_outcome = WriteOk,
     pdf2docx_outcome = WriteOk, pdf2docx_engine = (\<lambda>blocks. blocks), send_outcome = None,
     remove_outcome = (\<lambda>p. None)\<rparr>"

definition refusing :: env where
  "refusing = calm\<lparr>remove_outcome := (\<lambda>p. Some OSError)\<rparr>"

definition fresh :: state where
  "fresh = \<lparr>user_data = Map.empty, fs = Map.empty, trace = []\<rparr>"

definition selected :: "pystr \<Rightarrow> state" where
  "selected kind = fresh\<lparr>user_data := [str ''conversion_type'' \<mapsto> kind]\<rparr>"

definition one_file :: state where
  "one_file = fresh\<lparr>fs := [str ''temp/a.docx'' \<mapsto> File (WordDoc test_paragraphs)]\<rparr>"

definition tabbed :: state where
  "tabbed = fresh\<lparr>fs := [str ''temp/a.docx'' \<mapsto> File (WordDoc [[97, 9, 127, 98]])]\<rparr>"

definition upload :: "pystr \<Rightarrow> int \<Rightarrow> update" where
  "upload name bytes =
     \<lparr>message_document =
        Some \<lparr>file_id = str ''f1'', file_name = Some name, file_size = Some bytes\<rparr>,
      effective_chat_id = 7\<rparr>"

definition interrupted :: env where
  "interrupted = calm\<lparr>download_outcome := WriteFailed TelegramError True\<rparr>"

definition broken_off :: state where
  "broken_off =
     \<lparr>user_data = [str ''conversion_type'' \<mapsto> str ''word_to_pdf''],
      fs = [str ''temp'' \<mapsto> Dir, str ''temp/report.docx'' \<mapsto> File Partial],
      trace = [Mkdir (str ''temp''), GetFile (str ''f1''), Download (str ''temp/report.docx'')]\<rparr>"

definition delivered :: state where
  "delivered =
     \<lparr>user_data = [str ''conversion_type'' \<mapsto> str ''word_to_pdf''],
      fs = [str ''temp'' \<mapsto> Dir,
            str ''temp/report.docx'' \<mapsto> File (WordDoc test_paragraphs),
            str ''/srv/temp/report.pdf'' \<mapsto> File (PdfDoc test_paragraphs)],
      trace = [Mkdir (str ''temp''), GetFile (str ''f1''), Download (str ''temp/report.docx''),
               Reply Converting,
               SendDocument 7 (str ''report.pdf'') (PdfDoc test_paragraphs) PdfCaption]\<rparr>"

section \<open>Basic facts\<close>

lemma emit_simps [simp]:
  "user_data (emit e s) = user_data s" "fs (emit e s) = fs s" "trace (emit e s) = trace s @ [e]"
  by (simp_all add: emit_def)

lemma tokens_differ [simp]:
  "str ''word_to_pdf'' \<noteq> str ''pdf_to_word''" "str ''pdf_to_word'' \<noteq> str ''word_to_pdf''"
  by (simp_all add: str_def)

subsection \<open>What the steps of a transfer job add to the trace\<close>

lemma job_step_refl: "job_step s s"
  by (simp add: job_step_def)

lemma job_step_trans: "job_step s s1 \<Longrightarrow> job_step s1 s2 \<Longrightarrow> job_step s s2"
  by (auto simp: job_step_def)

lemma job_step_emit: "job_step s s1 \<Longrightarrow> working_event e \<Longrightarrow> job_step s (emit e s1)"
  by (auto simp: job_step_def)

lemma write_file_step: "write_file w p c s = (r, s1) \<Longrightarrow> job_step s s1"
  by (auto simp: write_file_def job_step_def split: write_outcome.splits if_splits)

lemma word_to_pdf_step: "word_to_pdf fc env p s = (r, s1) \<Longrightarrow> job_step s s1"
  by (auto simp: word_to_pdf_def word_to_pdf_try_def Let_def
        split: if_splits sum.splits prod.splits option.splits
        dest!: write_file_step intro!: job_step_emit job_step_refl)

lemma pdf_to_word_step: "pdf_to_word fc env p s = (r, s1) \<Longrightarrow> job_step s s1"
  by (auto simp: pdf_to_word_def pdf_to_word_try_def pdf2docx_convert_def Let_def
        split: if_splits sum.splits prod.splits option.splits node.splits content.splits
        dest!: write_file_step intro!: job_step_emit job_step_refl)

lemma send_document_step: "send_document env chat p cap s = (r, s1) \<Longrightarrow> job_step s s1"
  by (auto simp: send_document_def split: option.splits node.splits
        intro!: job_step_emit job_step_refl)

lemma convert_and_send_step:
  "convert_and_send fc env kind chat p s = (r, out, s1) \<Longrightarrow> job_step s s1"
  by (auto simp: convert_and_send_def split: if_splits sum.splits prod.splits
        dest!: word_to_pdf_step pdf_to_word_step send_document_step intro: job_step_trans)

lemma reply_converting_step: "reply_text env Converting s = (r, s1) \<Longrightarrow> job_step s s1"
  by (auto simp: reply_text_def intro!: job_step_emit job_step_refl)

lemma mkdir_exist_ok_trace:
  "mkdir_exist_ok env p s = (r, s1) \<Longrightarrow>
     trace s1 = trace s @ [Mkdir p] \<and> user_data s1 = user_data s"
  by (auto simp: mkdir_exist_ok_def Let_def split: option.splits node.splits)

lemma get_file_step: "get_file env fid s = (r, s1) \<Longrightarrow> job_step s s1"
  by (auto simp: get_file_def intro!: job_step_emit job_step_refl)

lemma download_to_drive_step:
  assumes "download_to_drive env p s = (r, s1)"
  shows "job_step s s1"
proof -
  from assms have "job_step (emit (Download p) s) s1"
    by (auto simp: download_to_drive_def dest!: write_file_step)
  moreover have "job_step s (emit (Download p) s)"
    by (simp add: job_step_emit job_step_refl)
  ultimately show ?thesis
    by (blast intro: job_step_trans)
qed

lemma after_mkdir:
  "trace s1 = trace s @ [Mkdir p] \<and> user_data s1 = user_data s \<Longrightarrow> job_step s1 s2 \<Longrightarrow>
     user_data s2 = user_data s
     \<and> (\<exists>rest. trace s2 = trace s @ Mkdir p # rest \<and> list_all working_event rest)"
  by (auto simp: job_step_def)

lemma try_block_trace:
  assumes "try_block fc env kind name fid chat s = (raised, dp, out, s1)"
  shows "user_data s1 = user_data s
     \<and> (\<exists>rest. trace s1 = trace s @ Mkdir (str ''temp'') # rest \<and> list_all working_event rest)"
proof -
  obtain r0 s0 where m: "mkdir_exist_ok env (str ''temp'') s = (r0, s0)"
    by (cases "mkdir_exist_ok env (str ''temp'') s")
  have "job_step s0 s1"
    using assms m
    by (auto simp: try_block_def Let_def split: option.splits prod.splits if_splits
          dest!: get_file_step download_to_drive_step convert_and_send_step
            reply_converting_step
          intro: job_step_trans job_step_refl)
  with mkdir_exist_ok_trace [OF m] show ?thesis
    by (rule after_mkdir)
qed

lemma except_clauses_step: "except_clauses env raised s = (r, s1) \<Longrightarrow> job_step s s1"
  by (auto simp: except_clauses_def reply_text_def split: option.splits if_splits
        intro!: job_step_emit job_step_refl)

lemma no_remove_among_working:
  "list_all working_event evs \<Longrightarrow> filter (\<lambda>ev. ev = Remove p) evs = []"
  by (induction evs) auto

subsection \<open>The \<open>finally\<close> clause and the whole job\<close>

lemma os_remove_verdict:
  "fs s p = fs s' p \<Longrightarrow> fst (os_remove env p s) = fst (os_remove env p s')"
  by (simp add: os_remove_def Let_def split: option.splits node.splits)

lemma except_clauses_fs: "except_clauses env raised s = (r, s1) \<Longrightarrow> fs s1 = fs s"
  by (auto simp: except_clauses_def reply_text_def split: option.splits if_splits)

lemma cleanup_if_exists_effect:
  assumes "cleanup_if_exists env path s = (r, s1)"
  shows "r = None \<and> user_data s1 = user_data s
    \<and> (\<exists>evs. trace s1 = trace s @ evs \<and> list_all cleanup_event evs
          \<and> (\<forall>q. path \<noteq> Some q \<longrightarrow> fs s1 q = fs s q \<and> Remove q \<notin> set evs)
          \<and> (\<forall>p. path = Some p \<longrightarrow>
                 length (filter (\<lambda>ev. ev = Remove p) evs) = (if fs s p = None then 0 else 1)
                 \<and> (fs s1 p = None
                     \<or> fs s1 p = fs s p \<and> Remove p \<in> set evs
                        \<and> (\<exists>e. fst (os_remove env p s) = Some e
                                \<and> LogError (CleanupFailed p e) \<in> set evs))))"
proof (cases path)
  case None
  with assms show ?thesis
    by (simp add: cleanup_if_exists_def)
next
  case (Some p)
  show ?thesis
  proof (cases "fs s p")
    case None
    with Some assms show ?thesis
      by (simp add: cleanup_if_exists_def os_path_exists_def)
  next
    case present: (Some n)
    then have run: "cleanup_temp_files env p s = (r, s1)"
      using Some assms by (simp add: cleanup_if_exists_def os_path_exists_def)
    show ?thesis
    proof (cases "fst (os_remove env p s)")
      case None
      then have "s1 = (emit (Remove p) s)\<lparr>fs := (fs s)(p := None)\<rparr>" and "r = None"
        using run present
        by (auto simp: cleanup_temp_files_def cleanup_temp_files_try_def os_path_exists_def
              os_remove_def Let_def split: option.splits node.splits)
      with Some present show ?thesis
        by (intro conjI exI [of _ "[Remove p]"]) auto
    next
      case refused: (Some e)
      then have "s1 = emit (LogError (CleanupFailed p e)) (emit (Remove p) s)" and "r = None"
        using run present
        by (auto simp: cleanup_temp_files_def cleanup_temp_files_try_def os_path_exists_def
              os_remove_def Let_def split: option.splits node.splits)
      with Some present refused show ?thesis
        by (intro conjI exI [of _ "[Remove p, LogError (CleanupFailed p e)]"]) auto
    qed
  qed
qed

lemma finally_clause_trace:
  assumes "finally_clause env dp out s = (r, s2)"
  shows "r = None \<and> user_data s2 = user_data s
    \<and> (\<exists>evs. trace s2 = trace s @ evs \<and> list_all cleanup_event evs)"
proof -
  obtain r1 s1 where a: "cleanup_if_exists env dp s = (r1, s1)"
    by (cases "cleanup_if_exists env dp s")
  from cleanup_if_exists_effect [OF a] obtain evs1 where
    "r1 = None" "user_data s1 = user_data s"
    "trace s1 = trace s @ evs1" "list_all cleanup_event evs1"
    by blast
  moreover from this a assms have b: "cleanup_if_exists env out s1 = (r, s2)"
    by (simp add: finally_clause_def)
  from cleanup_if_exists_effect [OF b] obtain evs2 where
    "r = None" "user_data s2 = user_data s1"
    "trace s2 = trace s1 @ evs2" "list_all cleanup_event evs2"
    by blast
  ultimately show ?thesis
    by (intro conjI exI [of _ "evs1 @ evs2"]) simp_all
qed

lemma no_remove_count:
  "Remove p \<notin> set evs \<Longrightarrow> length (filter (\<lambda>ev. ev = Remove p) evs) = 0"
  by (induction evs) auto

lemma finally_clause_effect:
  assumes run: "finally_clause env dp out s = (r, s2)"
    and apart: "dp = Some p \<and> out \<noteq> Some p \<or> out = Some p \<and> dp \<noteq> Some p"
  shows "\<exists>evs. trace s2 = trace s @ evs
    \<and> length (filter (\<lambda>ev. ev = Remove p) evs) = (if fs s p = None then 0 else 1)
    \<and> (fs s2 p = None
        \<or> fs s2 p = fs s p \<and> Remove p \<in> set evs
           \<and> (\<exists>e. fst (os_remove env p s) = Some e
                   \<and> LogError (CleanupFailed p e) \<in> set evs))"
proof -
  obtain r1 s1 where a: "cleanup_if_exists env dp s = (r1, s1)"
    by (cases "cleanup_if_exists env dp s")
  from cleanup_if_exists_effect [OF a] obtain evs1 where
    r1: "r1 = None" and t1: "trace s1 = trace s @ evs1"
    and other1: "\<forall>q. dp \<noteq> Some q \<longrightarrow> fs s1 q = fs s q \<and> Remove q \<notin> set evs1"
    and own1: "\<forall>p. dp = Some p \<longrightarrow>
                 length (filter (\<lambda>ev. ev = Remove p) evs1) = (if fs s p = None then 0 else 1)
                 \<and> (fs s1 p = None
                     \<or> fs s1 p = fs s p \<and> Remove p \<in> set evs1
                        \<and> (\<exists>e. fst (os_remove env p s) = Some e
                                \<and> LogError (CleanupFailed p e) \<in> set evs1))"
    by blast
  have b: "cleanup_if_exists env out s1 = (r, s2)"
    using run a r1 by (simp add: finally_clause_def)
  from cleanup_if_exists_effect [OF b] obtain evs2 where
    t2: "trace s2 = trace s1 @ evs2"
    and other2: "\<forall>q. out \<noteq> Some q \<longrightarrow> fs s2 q = fs s1 q \<and> Remove q \<notin> set evs2"
    and own2: "\<forall>p. out = Some p \<longrightarrow>
                 length (filter (\<lambda>ev. ev = Remove p) evs2) = (if fs s1 p = None then 0 else 1)
                 \<and> (fs s2 p = None
                     \<or> fs s2 p = fs s1 p \<and> Remove p \<in> set evs2
                        \<and> (\<exists>e. fst (os_remove env p s1) = Some e
                                \<and> LogError (CleanupFailed p e) \<in> set evs2))"
    by blast
  have tr: "trace s2 = trace s @ (evs1 @ evs2)"
    using t1 t2 by simp
  from apart show ?thesis
  proof
    assume first: "dp = Some p \<and> out \<noteq> Some p"
    then have keep: "fs s2 p = fs s1 p" and none: "Remove p \<notin> set evs2"
      using other2 by blast+
    from first own1 have
      count: "length (filter (\<lambda>ev. ev = Remove p) evs1) = (if fs s p = None then 0 else 1)"
      and fate: "fs s1 p = None
                 \<or> fs s1 p = fs s p \<and> Remove p \<in> set evs1
                    \<and> (\<exists>e. fst (os_remove env p s) = Some e
                            \<and> LogError (CleanupFailed p e) \<in> set evs1)"
      by blast+
    have "length (filter (\<lambda>ev. ev = Remove p) (evs1 @ evs2)) = (if fs s p = None then 0 else 1)"
      using count no_remove_count [OF none] by simp
    moreover have "fs s2 p = None
        \<or> fs s2 p = fs s p \<and> Remove p \<in> set (evs1 @ evs2)
           \<and> (\<exists>e. fst (os_remove env p s) = Some e
                   \<and> LogError (CleanupFailed p e) \<in> set (evs1 @ evs2))"
      using fate keep by auto
    ultimately show ?thesis
      using tr by blast
  next
    assume second: "out = Some p \<and> dp \<noteq> Some p"
    then have keep: "fs s1 p = fs s p" and none: "Remove p \<notin> set evs1"
      using other1 by blast+
    have verdict: "fst (os_remove env p s1) = fst (os_remove env p s)"
      using keep by (rule os_remove_verdict)
    from second own2 have
      count: "length (filter (\<lambda>ev. ev = Remove p) evs2) = (if fs s1 p = None then 0 else 1)"
      and fate: "fs s2 p = None
                 \<or> fs s2 p = fs s1 p \<and> Remove p \<in> set evs2
                    \<and> (\<exists>e. fst (os_remove env p s1) = Some e
                            \<and> LogError (CleanupFailed p e) \<in> set evs2)"
      by blast+
    have "length (filter (\<lambda>ev. ev = Remove p) (evs1 @ evs2)) = (if fs s p = None then 0 else 1)"
      using count keep no_remove_count [OF none] by simp
    moreover have "fs s2 p = None
        \<or> fs s2 p = fs s p \<and> Remove p \<in> set (evs1 @ evs2)
           \<and> (\<exists>e. fst (os_remove env p s) = Some e
                   \<and> LogError (CleanupFailed p e) \<in> set (evs1 @ evs2))"
      using fate keep verdict by auto
    ultimately show ?thesis
      using tr by blast
  qed
qed

lemma transfer_job_parts:
  assumes t: "try_block fc env kind name fid chat s = (raised, dp, out, s1)"
  shows "\<exists>work cleanup.
       trace (snd (transfer_job fc env kind name fid chat s))
         = trace s @ Mkdir (str ''temp'') # work @ cleanup
     \<and> user_data (snd (transfer_job fc env kind name fid chat s)) = user_data s
     \<and> fst (transfer_job fc env kind name fid chat s) = fst (except_clauses env raised s1)
     \<and> list_all working_event work \<and> list_all cleanup_event cleanup"
proof -
  obtain r2 s2 where x: "except_clauses env raised s1 = (r2, s2)"
    by (cases "except_clauses env raised s1")
  obtain r3 s3 where f: "finally_clause env dp out s2 = (r3, s3)"
    by (cases "finally_clause env dp out s2")
  from finally_clause_trace [OF f] obtain cleanup where
    r3: "r3 = None" and u3: "user_data s3 = user_data s2"
    and t3: "trace s3 = trace s2 @ cleanup" and c3: "list_all cleanup_event cleanup"
    by blast
  have job: "transfer_job fc env kind name fid chat s = (r2, s3)"
    using t x f r3 by (simp add: transfer_job_def)
  from try_block_trace [OF t] obtain rest where
    u1: "user_data s1 = user_data s"
    and t1: "trace s1 = trace s @ Mkdir (str ''temp'') # rest" and w1: "list_all working_event rest"
    by blast
  from except_clauses_step [OF x] obtain more where
    u2: "user_data s2 = user_data s1"
    and t2: "trace s2 = trace s1 @ more" and w2: "list_all working_event more"
    by (auto simp: job_step_def)
  have "trace s3 = trace s @ Mkdir (str ''temp'') # (rest @ more) @ cleanup"
    using t1 t2 t3 by simp
  moreover have "list_all working_event (rest @ more)"
    using w1 w2 by simp
  ultimately show ?thesis
    using job x u1 u2 u3 c3 by (intro exI [of _ "rest @ more"] exI [of _ cleanup]) simp
qed

lemma transfer_job_trace:
  "user_data (snd (transfer_job fc env kind name fid chat s)) = user_data s
   \<and> (\<exists>rest. trace (snd (transfer_job fc env kind name fid chat s))
                = trace s @ Mkdir (str ''temp'') # rest
            \<and> Reply TooLarge \<notin> set rest)"
proof -
  obtain raised dp out s1 where t: "try_block fc env kind name fid chat s = (raised, dp, out, s1)"
    by (cases "try_block fc env kind name fid chat s")
  from transfer_job_parts [OF t] obtain work cleanup where
    tr: "trace (snd (transfer_job fc env kind name fid chat s))
         = trace s @ Mkdir (str ''temp'') # work @ cleanup"
    and u: "user_data (snd (transfer_job fc env kind name fid chat s)) = user_data s"
    and w: "list_all working_event work" and c: "list_all cleanup_event cleanup"
    by blast
  have "Reply TooLarge \<notin> set work"
    using w by (auto simp: list_all_iff)
  moreover have "Reply TooLarge \<notin> set cleanup"
    using c by (auto simp: list_all_iff)
  ultimately show ?thesis
    using tr u by auto
qed

section \<open>The converter on a Word file\<close>

lemma process_paragraphs_append:
  "process_paragraphs pdf ps
     = pdf @ map (filter (\<lambda>c. c < 128)) (filter (\<lambda>t. py_strip t \<noteq> []) ps)"
  by (induction ps arbitrary: pdf) (simp_all add: multi_cell_def)

lemma py_strip_empty_iff: "py_strip t = [] \<longleftrightarrow> list_all py_isspace t"
proof -
  let ?rest = "dropWhile py_isspace t"
  have "py_strip t = [] \<longleftrightarrow> (\<forall>c \<in> set ?rest. py_isspace c)"
    unfolding py_strip_def by (simp only: rev_is_Nil_conv dropWhile_eq_Nil_conv set_rev)
  also have "\<dots> \<longleftrightarrow> ?rest = []"
  proof
    assume all: "\<forall>c \<in> set ?rest. py_isspace c"
    show "?rest = []"
    proof (rule ccontr)
      assume "?rest \<noteq> []"
      then have "\<not> py_isspace (hd ?rest)" and "hd ?rest \<in> set ?rest"
        by (simp_all add: hd_dropWhile)
      with all show False by blast
    qed
  next
    assume "?rest = []"
    then have "set ?rest = {}" by (simp only: list.set)
    then show "\<forall>c \<in> set ?rest. py_isspace c" by (metis empty_iff)
  qed
  also have "\<dots> \<longleftrightarrow> list_all py_isspace t"
    by (simp add: dropWhile_eq_Nil_conv list_all_iff)
  finally show ?thesis .
qed

lemma word_to_pdf_writes:
  assumes "word_extension_valid p"
    and "fs s p = Some (File (WordDoc paragraphs))"
    and "pdf_output_outcome env = WriteOk"
  shows "word_to_pdf fc env p s
     = (Inr (path_join (temp_dir fc) (path_stem p @ str ''.pdf'')),
        s\<lparr>fs := (fs s)(path_join (temp_dir fc) (path_stem p @ str ''.pdf'') \<mapsto>
             File (PdfDoc (map (filter (\<lambda>c. c < 128))
                            (filter (\<lambda>t. \<not> list_all py_isspace t) paragraphs))))\<rparr>)"
  using assms
  by (simp add: word_to_pdf_def word_to_pdf_try_def docx_Document_def write_file_def
        os_path_exists_def Let_def process_paragraphs_append py_strip_empty_iff)


section \<open>Concrete runs\<close>

lemma lower_report_docx: "py_lower (str ''report.docx'') = str ''report.docx''"
  by (simp add: py_lower_def py_lower_char_def str_def)

lemma report_docx_passes:
  "check_extension (str ''word_to_pdf'') (str ''report.docx'') = None"
  by (simp add: check_extension_def lower_report_docx) (simp add: py_endswith_def str_def)

lemma download_path_report:
  "path_join (str ''temp'') (str ''report.docx'') = str ''temp/report.docx''"
  by (simp add: path_join_def path_str_def path_root_def path_parts_def str_def)

lemma report_docx_valid: "word_extension_valid (str ''temp/report.docx'')"
  by (simp add: word_extension_valid_def path_suffix_def path_name_def path_parts_def
        py_rfind_def py_lower_def py_lower_char_def str_def)

lemma output_path_report:
  "path_join (temp_dir the_converter) (path_stem (str ''temp/report.docx'') @ str ''.pdf'')
     = str ''/srv/temp/report.pdf''"
  by (simp add: the_converter_def path_stem_def path_name_def py_rfind_def
        path_join_def path_str_def path_root_def path_parts_def str_def)

lemma output_name_report: "path_name (str ''/srv/temp/report.pdf'') = str ''report.pdf''"
  by (simp add: path_name_def path_parts_def str_def)

lemma report_paths_differ:
  "str ''temp/report.docx'' \<noteq> str ''/srv/temp/report.pdf''"
  "str ''/srv/temp/report.pdf'' \<noteq> str ''temp/report.docx''"
  "str ''temp'' \<noteq> str ''temp/report.docx''"
  "str ''temp'' \<noteq> str ''/srv/temp/report.pdf''"
  "str ''temp/report.docx'' \<noteq> str ''temp''"
  "str ''/srv/temp/report.pdf'' \<noteq> str ''temp''"
  by (simp_all add: str_def)

lemma test_paragraphs_kept:
  "map (filter (\<lambda>c. c < 128)) (filter (\<lambda>t. \<not> list_all py_isspace t) test_paragraphs)
     = test_paragraphs"
  by (simp add: test_paragraphs_def str_def py_isspace_def)

lemma suffix_a_pdf: "path_suffix (str ''temp/a.pdf'') = str ''.pdf''"
  by (simp add: path_suffix_def path_name_def path_parts_def py_rfind_def str_def)

lemma suffix_a_docx: "path_suffix (str ''temp/a.docx'') = str ''.docx''"
  by (simp add: path_suffix_def path_name_def path_parts_def py_rfind_def str_def)

lemma a_docx_valid: "word_extension_valid (str ''temp/a.docx'')"
  by (simp add: word_extension_valid_def suffix_a_docx)
    (simp add: str_def py_lower_def py_lower_char_def)

lemma output_path_a:
  "path_join (temp_dir the_converter) (path_stem (str ''temp/a.docx'') @ str ''.pdf'')
     = str ''/srv/temp/a.pdf''"
  by (simp add: the_converter_def path_stem_def path_name_def py_rfind_def
        path_join_def path_str_def path_root_def path_parts_def str_def)

lemma calm_fields:
  "reply_outcome (calm\<lparr>remove_outcome := f\<rparr>) m = None"
  "mkdir_outcome (calm\<lparr>remove_outcome := f\<rparr>) = None"
  "get_file_outcome (calm\<lparr>remove_outcome := f\<rparr>) = None"
  "download_outcome (calm\<lparr>remove_outcome := f\<rparr>) = WriteOk"
  "download_content (calm\<lparr>remove_outcome := f\<rparr>) = WordDoc test_paragraphs"
  "pdf_output_outcome (calm\<lparr>remove_outcome := f\<rparr>) = WriteOk"
  "send_outcome (calm\<lparr>remove_outcome := f\<rparr>) = None"
  "remove_outcome (calm\<lparr>remove_outcome := f\<rparr>) = f"
  "reply_outcome calm m = None"
  "mkdir_outcome calm = None"
  "get_file_outcome calm = None"
  "download_outcome calm = WriteOk"
  "download_content calm = WordDoc test_paragraphs"
  "pdf_output_outcome calm = WriteOk"
  "send_outcome calm = None"
  by (simp_all add: calm_def)

lemma convert_report:
  "word_to_pdf the_converter (calm\<lparr>remove_outcome := f\<rparr>) (str ''temp/report.docx'')
     \<lparr>user_data = u,
      fs = [str ''temp'' \<mapsto> Dir,
            str ''temp/report.docx'' \<mapsto> File (WordDoc test_paragraphs)],
      trace = t\<rparr>
   = (Inr (str ''/srv/temp/report.pdf''),
      \<lparr>user_data = u,
       fs = [str ''temp'' \<mapsto> Dir,
             str ''temp/report.docx'' \<mapsto> File (WordDoc test_paragraphs),
             str ''/srv/temp/report.pdf'' \<mapsto> File (PdfDoc test_paragraphs)],
       trace = t\<rparr>)"
  by (subst word_to_pdf_writes [where paragraphs = test_paragraphs])
    (simp_all add: report_docx_valid calm_fields output_path_report test_paragraphs_kept)

lemma try_block_delivers:
  "try_block the_converter (calm\<lparr>remove_outcome := f\<rparr>) (str ''word_to_pdf'')
     (str ''report.docx'') (str ''f1'') 7 (selected (str ''word_to_pdf''))
   = (None, Some (str ''temp/report.docx''), Some (str ''/srv/temp/report.pdf''), delivered)"
  by (simp add: try_block_def mkdir_exist_ok_def get_file_def download_to_drive_def
        write_file_def reply_text_def convert_and_send_def send_document_def
        os_path_exists_def emit_def Let_def selected_def fresh_def download_path_report
        convert_report output_name_report delivered_def report_paths_differ calm_fields)

lemma calm_unchanged: "calm\<lparr>remove_outcome := (\<lambda>p. None)\<rparr> = calm"
  by (simp add: calm_def)

lemma calm_removes: "remove_outcome calm p = None"
  by (simp add: calm_def)

lemma refusing_removes: "remove_outcome refusing p = Some OSError"
  by (simp add: refusing_def)

lemma delivered_files:
  "fs delivered (str ''temp/report.docx'') = Some (File (WordDoc test_paragraphs))"
  "fs delivered (str ''/srv/temp/report.pdf'') = Some (File (PdfDoc test_paragraphs))"
  by (simp_all add: delivered_def report_paths_differ)

lemma job_with_calm:
  "transfer_job the_converter calm (str ''word_to_pdf'') (str ''report.docx'') (str ''f1'') 7
     (selected (str ''word_to_pdf''))
   = (None,
      delivered\<lparr>fs := (fs delivered)(str ''temp/report.docx'' := None,
                                       str ''/srv/temp/report.pdf'' := None),
                trace := trace delivered
                  @ [Remove (str ''temp/report.docx''), Remove (str ''/srv/temp/report.pdf'')]\<rparr>)"
  using try_block_delivers [of "\<lambda>p. None"]
  by (simp add: calm_unchanged transfer_job_def except_clauses_def finally_clause_def
        cleanup_if_exists_def cleanup_temp_files_def cleanup_temp_files_try_def os_remove_def
        os_path_exists_def emit_def Let_def delivered_files report_paths_differ calm_fields
        calm_removes)

lemma job_with_refusing:
  "transfer_job the_converter refusing (str ''word_to_pdf'') (str ''report.docx'') (str ''f1'') 7
     (selected (str ''word_to_pdf''))
   = (None,
      delivered\<lparr>trace := trace delivered
                  @ [Remove (str ''temp/report.docx''),
                     LogError (CleanupFailed (str ''temp/report.docx'') OSError),
                     Remove (str ''/srv/temp/report.pdf''),
                     LogError (CleanupFailed (str ''/srv/temp/report.pdf'') OSError)]\<rparr>)"
  using try_block_delivers [of "\<lambda>p. Some OSError"]
  by (simp add: refusing_def transfer_job_def except_clauses_def finally_clause_def
        cleanup_if_exists_def cleanup_temp_files_def cleanup_temp_files_try_def os_remove_def
        os_path_exists_def emit_def Let_def delivered_files report_paths_differ calm_fields)

lemma interrupted_fields:
  "reply_outcome interrupted m = None"
  "mkdir_outcome interrupted = None"
  "get_file_outcome interrupted = None"
  "download_outcome interrupted = WriteFailed TelegramError True"
  "remove_outcome interrupted p = None"
  by (simp_all add: interrupted_def calm_def)

lemma try_block_interrupted:
  "try_block the_converter interrupted (str ''word_to_pdf'') (str ''report.docx'') (str ''f1'') 7
     (selected (str ''word_to_pdf''))
   = (Some TelegramError, Some (str ''temp/report.docx''), None, broken_off)"
  by (simp add: try_block_def mkdir_exist_ok_def get_file_def download_to_drive_def
        write_file_def emit_def Let_def selected_def fresh_def download_path_report
        broken_off_def interrupted_fields)

lemma job_interrupted:
  "transfer_job the_converter interrupted (str ''word_to_pdf'') (str ''report.docx'')
     (str ''f1'') 7 (selected (str ''word_to_pdf''))
   = (None,
      broken_off\<lparr>fs := (fs broken_off)(str ''temp/report.docx'' := None),
                 trace := trace broken_off
                   @ [LogError (ProcessingLogged TelegramError), Reply GenericFailure,
                      Remove (str ''temp/report.docx'')]\<rparr>)"
proof -
  have there: "fs broken_off (str ''temp/report.docx'') = Some (File Partial)"
    by (simp add: broken_off_def)
  show ?thesis
    by (simp add: transfer_job_def try_block_interrupted except_clauses_def reply_text_def
          finally_clause_def cleanup_if_exists_def cleanup_temp_files_def
          cleanup_temp_files_try_def os_remove_def os_path_exists_def emit_def Let_def
          there interrupted_fields)
qed

lemma handle_report_upload:
  "handle_document the_converter env (upload (str ''report.docx'') 4096)
     (selected (str ''word_to_pdf''))
   = transfer_job the_converter env (str ''word_to_pdf'') (str ''report.docx'') (str ''f1'') 7
       (selected (str ''word_to_pdf''))"
proof -
  have "str ''word_to_pdf'' \<noteq> []" and "str ''report.docx'' \<noteq> []"
    by (simp_all add: str_def)
  then show ?thesis
    by (simp add: handle_document_def upload_def selected_def fresh_def report_docx_passes)
qed

lemma scan_pdf_fails:
  "check_extension (str ''word_to_pdf'') (str ''scan.pdf'') = Some WordExtension"
  by (simp add: check_extension_def)
    (simp add: py_endswith_def py_lower_def py_lower_char_def str_def)

section \<open>Lowercasing and the suffix of a path\<close>

lemma lower_keeps_slash: "py_lower_char c = 47 \<longleftrightarrow> c = 47"
  by (auto simp: py_lower_char_def)

lemma lower_keeps_dot: "py_lower_char c = 46 \<longleftrightarrow> c = 46"
  by (auto simp: py_lower_char_def)

lemma py_split_not_empty: "py_split sep s \<noteq> []"
  by (induction s) (auto split: list.splits)

lemma py_split_lower:
  "py_split 47 (py_lower s) = map py_lower (py_split 47 s)"
proof (induction s)
  case Nil
  then show ?case by (simp add: py_lower_def)
next
  case (Cons c cs)
  obtain x xs where parts: "py_split 47 cs = x # xs"
    using py_split_not_empty [of 47 cs] by (cases "py_split 47 cs") auto
  with Cons show ?case
    by (simp add: py_lower_def lower_keeps_slash)
qed

lemma path_parts_lower: "path_parts (py_lower p) = map py_lower (path_parts p)"
proof -
  have dot: "py_lower x = str ''.'' \<longleftrightarrow> x = str ''.''" for x
    by (cases x) (auto simp: py_lower_def str_def lower_keeps_dot)
  have nil: "py_lower x = [] \<longleftrightarrow> x = []" for x
    by (simp add: py_lower_def)
  show ?thesis
    by (simp add: path_parts_def py_split_lower filter_map comp_def dot nil)
qed

lemma path_name_lower: "path_name (py_lower p) = py_lower (path_name p)"
  by (simp add: path_name_def path_parts_lower last_map) (simp add: py_lower_def)

lemma py_rfind_lower: "py_rfind 46 (py_lower s) = py_rfind 46 s"
proof -
  have "takeWhile (\<lambda>x. x \<noteq> 46) (map py_lower_char (rev s))
      = map py_lower_char (takeWhile (\<lambda>x. x \<noteq> 46) (rev s))"
    by (simp add: takeWhile_map comp_def lower_keeps_dot)
  then show ?thesis
    by (simp add: py_rfind_def py_lower_def rev_map Let_def)
qed

lemma path_suffix_lower: "path_suffix (py_lower p) = py_lower (path_suffix p)"
  by (simp add: path_suffix_def path_name_lower py_rfind_lower Let_def split: option.splits)
    (simp add: py_lower_def drop_map)

lemma upper_names:
  "py_lower (str ''REPORT.DOCX'') = str ''report.docx''"
  "py_lower (str ''Report.PDF'') = str ''report.pdf''"
  by (simp_all add: py_lower_def py_lower_char_def str_def)

section \<open>The output path is not the download path\<close>

lemma py_split_no_sep: "y \<in> set (py_split sep s) \<Longrightarrow> sep \<notin> set y"
proof (induction s arbitrary: y)
  case Nil
  then show ?case by simp
next
  case (Cons c cs)
  obtain x xs where parts: "py_split sep cs = x # xs"
    using py_split_not_empty [of sep cs] by (cases "py_split sep cs") auto
  with Cons show ?case
    by (auto split: if_splits)
qed

lemma py_split_append:
  "py_split sep (a @ sep # b) = py_split sep a @ py_split sep b"
proof (induction a)
  case Nil
  then show ?case by simp
next
  case (Cons c cs)
  obtain x xs where parts: "py_split sep cs = x # xs"
    using py_split_not_empty [of sep cs] by (cases "py_split sep cs") auto
  with Cons show ?case
    by simp
qed

lemma py_split_single: "sep \<notin> set x \<Longrightarrow> py_split sep x = [x]"
  by (induction x) auto

lemma py_split_join_parts:
  "ps \<noteq> [] \<Longrightarrow> \<forall>y \<in> set ps. 47 \<notin> set y \<Longrightarrow> py_split 47 (join_parts ps) = ps"
proof (induction ps rule: join_parts.induct)
  case 1
  then show ?case by simp
next
  case (2 x)
  then show ?case by (simp add: py_split_single)
next
  case (3 x y ys)
  have "join_parts (x # y # ys) = x @ 47 # join_parts (y # ys)"
    by (simp add: str_def)
  with 3 show ?case
    by (simp only: py_split_append) (simp add: py_split_single)
qed

lemma path_parts_facts:
  "y \<in> set (path_parts q) \<Longrightarrow> 47 \<notin> set y \<and> y \<noteq> [] \<and> y \<noteq> str ''.''"
  by (auto simp: path_parts_def dest: py_split_no_sep)

lemma path_parts_append: "path_parts (a @ 47 # b) = path_parts a @ path_parts b"
  by (simp add: path_parts_def py_split_append)

lemma path_parts_single:
  "47 \<notin> set x \<Longrightarrow> x \<noteq> [] \<Longrightarrow> x \<noteq> str ''.'' \<Longrightarrow> path_parts x = [x]"
  by (simp add: path_parts_def py_split_single)

lemma path_parts_join_parts: "path_parts (join_parts (path_parts q)) = path_parts q"
proof (cases "path_parts q = []")
  case True
  then show ?thesis by (simp add: path_parts_def)
next
  case False
  have "py_split 47 (join_parts (path_parts q)) = path_parts q"
    using False path_parts_facts [of _ q] by (intro py_split_join_parts) auto
  moreover have "filter (\<lambda>x. x \<noteq> [] \<and> x \<noteq> str ''.'') (path_parts q) = path_parts q"
    using path_parts_facts [of _ q] by (intro filter_True) auto
  ultimately show ?thesis
    by (simp add: path_parts_def [of "join_parts (path_parts q)"])
qed

lemma path_parts_after_slash: "path_parts (47 # s) = path_parts s"
  by (simp add: path_parts_def)

lemma path_parts_str: "path_parts (path_str q) = path_parts q"
proof -
  have root: "path_root q = [] \<or> path_root q = [47] \<or> path_root q = [47, 47]"
    by (simp add: path_root_def str_def)
  have dot: "path_parts (str ''.'') = []"
    by (simp add: path_parts_def str_def)
  show ?thesis
    using root dot
    by (auto simp: path_str_def path_parts_after_slash path_parts_join_parts)
qed

lemma path_name_join:
  assumes "47 \<notin> set x" and "x \<noteq> []" and "x \<noteq> str ''.''"
  shows "path_name (path_join t x) = x"
proof -
  have "take 1 x \<noteq> str ''/''"
    using assms(1,2) by (cases x) (auto simp: str_def)
  then have "path_join t x = path_str (t @ 47 # x)"
    by (simp add: path_join_def str_def)
  moreover have "path_parts (t @ 47 # x) = path_parts t @ [x]"
    using assms by (simp add: path_parts_append path_parts_single)
  ultimately show ?thesis
    by (simp add: path_name_def path_parts_str)
qed

lemma valid_suffix_stem:
  assumes "path_suffix d \<noteq> []"
  shows "path_stem d \<noteq> [] \<and> 47 \<notin> set (path_stem d)"
proof -
  let ?name = "path_name d"
  from assms obtain i where found: "py_rfind 46 ?name = Some i"
    and inner: "0 < i" "i + 1 < length ?name"
    by (auto simp: path_suffix_def Let_def split: option.splits if_splits)
  then have stem: "path_stem d = take i ?name"
    by (simp add: path_stem_def Let_def)
  have "?name \<noteq> []"
    using inner by auto
  then have "path_parts d \<noteq> []" and "?name \<in> set (path_parts d)"
    by (auto simp: path_name_def split: if_splits)
  then have "47 \<notin> set ?name"
    using path_parts_facts by blast
  then have "47 \<notin> set (take i ?name)"
    by (meson in_set_takeD)
  moreover have "take i ?name \<noteq> []"
    using inner by auto
  ultimately show ?thesis
    by (simp add: stem)
qed

lemma py_rfind_extension:
  "46 \<notin> set ext \<Longrightarrow> py_rfind 46 (stem @ 46 # ext) = Some (length stem)"
proof -
  assume "46 \<notin> set ext"
  then have "takeWhile (\<lambda>x. x \<noteq> 46) (rev ext @ 46 # rev stem) = rev ext"
    by (subst takeWhile_append2) auto
  then show ?thesis
    by (simp add: py_rfind_def Let_def)
qed

lemma path_suffix_join:
  assumes "stem \<noteq> []" and "47 \<notin> set stem" and "46 \<notin> set ext" and "47 \<notin> set ext"
    and "ext \<noteq> []"
  shows "path_suffix (path_join t (stem @ 46 # ext)) = 46 # ext"
proof -
  have "stem @ 46 # ext \<noteq> str ''.''"
    using assms(1) by (cases stem) (auto simp: str_def)
  then have "path_name (path_join t (stem @ 46 # ext)) = stem @ 46 # ext"
    using assms by (intro path_name_join) auto
  then show ?thesis
    using assms by (simp add: path_suffix_def py_rfind_extension Let_def)
qed

lemma word_output_differs:
  assumes "word_extension_valid d"
  shows "path_join t (path_stem d @ str ''.pdf'') \<noteq> d"
proof
  assume same: "path_join t (path_stem d @ str ''.pdf'') = d"
  have "path_suffix d \<noteq> []"
    using assms by (auto simp: word_extension_valid_def py_lower_def str_def)
  then have "path_stem d \<noteq> []" "47 \<notin> set (path_stem d)"
    using valid_suffix_stem by blast+
  then have "path_suffix (path_join t (path_stem d @ 46 # [112, 100, 102])) = 46 # [112, 100, 102]"
    by (intro path_suffix_join) auto
  then have "path_suffix d = str ''.pdf''"
    using same by (simp add: str_def)
  then show False
    using assms by (simp add: word_extension_valid_def py_lower_def py_lower_char_def str_def)
qed

lemma pdf_output_differs:
  assumes "pdf_extension_valid d"
  shows "path_join t (path_stem d @ str ''.docx'') \<noteq> d"
proof
  assume same: "path_join t (path_stem d @ str ''.docx'') = d"
  have "path_suffix d \<noteq> []"
    using assms by (auto simp: pdf_extension_valid_def py_lower_def str_def)
  then have "path_stem d \<noteq> []" "47 \<notin> set (path_stem d)"
    using valid_suffix_stem by blast+
  then have "path_suffix (path_join t (path_stem d @ 46 # [100, 111, 99, 120]))
      = 46 # [100, 111, 99, 120]"
    by (intro path_suffix_join) auto
  then have "path_suffix d = str ''.docx''"
    using same by (simp add: str_def)
  then show False
    using assms by (simp add: pdf_extension_valid_def py_lower_def py_lower_char_def str_def)
qed

lemma word_to_pdf_returns:
  "word_to_pdf fc env p s = (Inr out, s1) \<Longrightarrow> out \<noteq> p"
  by (auto simp: word_to_pdf_def word_to_pdf_try_def Let_def word_output_differs
        split: if_splits sum.splits prod.splits option.splits)

lemma pdf_to_word_returns:
  "pdf_to_word fc env p s = (Inr out, s1) \<Longrightarrow> out \<noteq> p"
  by (auto simp: pdf_to_word_def pdf_to_word_try_def Let_def pdf_output_differs
        split: if_splits sum.splits prod.splits option.splits)

lemma convert_and_send_path:
  "convert_and_send fc env kind chat p s = (r, Some out, s1) \<Longrightarrow> out \<noteq> p"
  by (auto simp: convert_and_send_def split: if_splits sum.splits prod.splits
        dest: word_to_pdf_returns pdf_to_word_returns)

lemma try_block_paths_differ:
  "try_block fc env kind name fid chat s = (raised, Some d, Some out, s1) \<Longrightarrow> out \<noteq> d"
  by (auto simp: try_block_def Let_def split: option.splits prod.splits if_splits
        dest: convert_and_send_path)

section \<open>Cleanup is best effort\<close>

text \<open>
  C8. \<open>cleanup_temp_files\<close> never raises. On a path that does not exist it does
  nothing. On a path that exists it asks the operating system once to delete it; when
  the deletion succeeds the path is gone, and when it fails the failure is logged, the
  file system is as before and the caller sees no exception.
\<close>

theorem cleanup_temp_files_best_effort:
  "fst (cleanup_temp_files env p s) = None
   \<and> (\<not> os_path_exists s p \<longrightarrow> snd (cleanup_temp_files env p s) = s)
   \<and> (os_path_exists s p \<longrightarrow>
        (\<exists>rest. trace (snd (cleanup_temp_files env p s)) = trace s @ Remove p # rest))
   \<and> (os_path_exists s p \<and> fst (os_remove env p s) = None \<longrightarrow>
        fs (snd (cleanup_temp_files env p s)) p = None)
   \<and> (os_path_exists s p \<and> fst (os_remove env p s) = Some e \<longrightarrow>
        fs (snd (cleanup_temp_files env p s)) = fs s
        \<and> trace (snd (cleanup_temp_files env p s))
            = trace s @ [Remove p, LogError (CleanupFailed p e)])"
  by (auto simp: cleanup_temp_files_def cleanup_temp_files_try_def os_remove_def emit_def
        os_path_exists_def Let_def split: option.splits node.splits)

theorem cleanup_temp_files_best_effort_witness:
  "\<not> os_path_exists fresh (str ''temp/a.docx'')
   \<and> snd (cleanup_temp_files calm (str ''temp/a.docx'') fresh) = fresh
   \<and> os_path_exists one_file (str ''temp/a.docx'')
   \<and> fst (os_remove calm (str ''temp/a.docx'') one_file) = None
   \<and> fs (snd (cleanup_temp_files calm (str ''temp/a.docx'') one_file)) (str ''temp/a.docx'')
       = None
   \<and> fst (os_remove refusing (str ''temp/a.docx'') one_file) = Some OSError
   \<and> fst (cleanup_temp_files refusing (str ''temp/a.docx'') one_file) = None
   \<and> trace (snd (cleanup_temp_files refusing (str ''temp/a.docx'') one_file))
       = [Remove (str ''temp/a.docx''), LogError (CleanupFailed (str ''temp/a.docx'') OSError)]"
proof -
  have absent: "\<not> os_path_exists fresh (str ''temp/a.docx'')"
    by (simp add: os_path_exists_def fresh_def)
  have present: "os_path_exists one_file (str ''temp/a.docx'')"
    by (simp add: os_path_exists_def one_file_def)
  have granted: "fst (os_remove calm (str ''temp/a.docx'') one_file) = None"
    by (simp add: os_remove_def one_file_def calm_def Let_def)
  have refused: "fst (os_remove refusing (str ''temp/a.docx'') one_file) = Some OSError"
    by (simp add: os_remove_def one_file_def refusing_def Let_def)
  have silent: "trace one_file = []"
    by (simp add: one_file_def fresh_def)
  show ?thesis
    using absent present granted refused silent
      cleanup_temp_files_best_effort [of calm "str ''temp/a.docx''" fresh]
      cleanup_temp_files_best_effort [of calm "str ''temp/a.docx''" one_file]
      cleanup_temp_files_best_effort [of refusing "str ''temp/a.docx''" one_file OSError]
    by simp
qed

section \<open>The converters validate their input\<close>

text \<open>
  C6. Each converter raises \<open>ValueError\<close> (the specification's FormatError) when the
  lowercased suffix of the path is not an expected extension, whether the file exists
  or not, and \<open>FileNotFoundError\<close> (NotFound) when the extension is valid and the
  path does not exist: the extension is tested first. Nothing is written in either case.
\<close>

theorem converters_validate_extension_then_existence:
  "(\<not> word_extension_valid p \<longrightarrow>
      fst (word_to_pdf fc env p s) = Inl ValueError \<and> fs (snd (word_to_pdf fc env p s)) = fs s)
   \<and> (word_extension_valid p \<and> \<not> os_path_exists s p \<longrightarrow>
      fst (word_to_pdf fc env p s) = Inl FileNotFoundError
      \<and> fs (snd (word_to_pdf fc env p s)) = fs s)
   \<and> (\<not> pdf_extension_valid p \<longrightarrow>
      fst (pdf_to_word fc env p s) = Inl ValueError \<and> fs (snd (pdf_to_word fc env p s)) = fs s)
   \<and> (pdf_extension_valid p \<and> \<not> os_path_exists s p \<longrightarrow>
      fst (pdf_to_word fc env p s) = Inl FileNotFoundError
      \<and> fs (snd (pdf_to_word fc env p s)) = fs s)"
  by (simp add: word_to_pdf_def word_to_pdf_try_def pdf_to_word_def pdf_to_word_try_def
        os_path_exists_def Let_def)

theorem converters_validate_extension_then_existence_witness:
  "\<not> word_extension_valid (str ''temp/a.pdf'')
   \<and> fst (word_to_pdf the_converter calm (str ''temp/a.pdf'') fresh) = Inl ValueError
   \<and> word_extension_valid (str ''temp/a.docx'')
   \<and> \<not> os_path_exists fresh (str ''temp/a.docx'')
   \<and> fst (word_to_pdf the_converter calm (str ''temp/a.docx'') fresh) = Inl FileNotFoundError
   \<and> \<not> pdf_extension_valid (str ''temp/a.docx'')
   \<and> fst (pdf_to_word the_converter calm (str ''temp/a.docx'') fresh) = Inl ValueError
   \<and> pdf_extension_valid (str ''temp/a.pdf'')
   \<and> \<not> os_path_exists fresh (str ''temp/a.pdf'')
   \<and> fst (pdf_to_word the_converter calm (str ''temp/a.pdf'') fresh) = Inl FileNotFoundError"
proof -
  have w1: "\<not> word_extension_valid (str ''temp/a.pdf'')"
    by (simp add: word_extension_valid_def suffix_a_pdf)
      (simp add: str_def py_lower_def py_lower_char_def)
  have w2: "word_extension_valid (str ''temp/a.docx'')"
    by (simp add: word_extension_valid_def suffix_a_docx)
      (simp add: str_def py_lower_def py_lower_char_def)
  have p1: "\<not> pdf_extension_valid (str ''temp/a.docx'')"
    by (simp add: pdf_extension_valid_def suffix_a_docx)
      (simp add: str_def py_lower_def py_lower_char_def)
  have p2: "pdf_extension_valid (str ''temp/a.pdf'')"
    by (simp add: pdf_extension_valid_def suffix_a_pdf)
      (simp add: str_def py_lower_def py_lower_char_def)
  have missing: "\<not> os_path_exists fresh q" for q
    by (simp add: os_path_exists_def fresh_def)
  show ?thesis
    using w1 w2 p1 p2 missing
      converters_validate_extension_then_existence
        [of "str ''temp/a.pdf''" the_converter calm fresh]
      converters_validate_extension_then_existence
        [of "str ''temp/a.docx''" the_converter calm fresh]
    by simp
qed

section \<open>The validation of an upload\<close>

text \<open>
  C3. A document that arrives while no conversion is selected is answered with the
  instruction to select one first (line 88): that reply is the only event, so no file is
  requested or downloaded, and the file system and the session are as before.
\<close>

theorem document_without_selection:
  assumes "message_document upd = Some doc"
    and "user_data s (str ''conversion_type'') = None"
  shows "fst (handle_document fc env upd s) = reply_outcome env SelectFirst
    \<and> trace (snd (handle_document fc env upd s)) = trace s @ [Reply SelectFirst]
    \<and> fs (snd (handle_document fc env upd s)) = fs s
    \<and> user_data (snd (handle_document fc env upd s)) = user_data s"
  using assms by (simp add: handle_document_def reply_text_def)

theorem document_without_selection_witness:
  "message_document (upload (str ''report.docx'') 4096)
     = Some \<lparr>file_id = str ''f1'', file_name = Some (str ''report.docx''),
             file_size = Some 4096\<rparr>
   \<and> user_data fresh (str ''conversion_type'') = None
   \<and> fst (handle_document the_converter calm (upload (str ''report.docx'') 4096) fresh)
       = None
   \<and> trace (snd (handle_document the_converter calm (upload (str ''report.docx'') 4096)
                   fresh))
       = [Reply SelectFirst]
   \<and> fs (snd (handle_document the_converter calm (upload (str ''report.docx'') 4096) fresh))
       = Map.empty"
proof -
  have doc: "message_document (upload (str ''report.docx'') 4096)
     = Some \<lparr>file_id = str ''f1'', file_name = Some (str ''report.docx''),
             file_size = Some 4096\<rparr>"
    by (simp add: upload_def)
  have unset: "user_data fresh (str ''conversion_type'') = None"
    by (simp add: fresh_def)
  show ?thesis
    using doc unset document_without_selection [OF doc unset, of the_converter calm]
    by (simp add: fresh_def calm_def)
qed

lemma press_pdf_to_word:
  "button_callback calm (Some (str ''pdf_to_word'')) fresh
     = (None, \<lparr>user_data = [str ''conversion_type'' \<mapsto> str ''pdf_to_word''], fs = Map.empty,
               trace = [AnswerCallback, Reply PromptPdf]\<rparr>)"
  by (simp add: button_callback_def reply_text_def calm_def fresh_def emit_def)

text \<open>
  C4. With one of the two conversions selected, a document whose lowercased file name
  does not end with an extension of that conversion (\<open>.doc\<close> or \<open>.docx\<close> for
  \<open>word_to_pdf\<close>, \<open>.pdf\<close> for \<open>pdf_to_word\<close>) is answered with the extension
  message of the conversion; that reply is the only event, so nothing is downloaded, and
  the selection stays. The scenario of the specification (the button \<open>pdf_to_word\<close>,
  then report.docx) is the witness.
\<close>

theorem mismatched_extension_is_rejected:
  assumes "message_document upd = Some doc"
    and "user_data s (str ''conversion_type'') = Some kind"
    and "kind = str ''word_to_pdf'' \<or> kind = str ''pdf_to_word''"
    and "file_name doc = Some name" and "name \<noteq> []"
    and "if kind = str ''word_to_pdf''
         then \<not> py_endswith (py_lower name) (str ''.doc'')
              \<and> \<not> py_endswith (py_lower name) (str ''.docx'')
         else \<not> py_endswith (py_lower name) (str ''.pdf'')"
  shows "fst (handle_document fc env upd s)
       = reply_outcome env (if kind = str ''word_to_pdf'' then WordExtension else PdfExtension)
    \<and> trace (snd (handle_document fc env upd s))
       = trace s @ [Reply (if kind = str ''word_to_pdf'' then WordExtension else PdfExtension)]
    \<and> fs (snd (handle_document fc env upd s)) = fs s
    \<and> user_data (snd (handle_document fc env upd s)) = user_data s"
proof -
  have "kind \<noteq> []"
    using assms(3) by (auto simp: str_def)
  moreover have "check_extension kind name
      = Some (if kind = str ''word_to_pdf'' then WordExtension else PdfExtension)"
    using assms(3,6) by (auto simp: check_extension_def)
  ultimately show ?thesis
    using assms(1,2,4,5) by (simp add: handle_document_def reply_text_def)
qed

theorem mismatched_extension_is_rejected_witness:
  "user_data (snd (button_callback calm (Some (str ''pdf_to_word'')) fresh))
      (str ''conversion_type'')
     = Some (str ''pdf_to_word'')
   \<and> \<not> py_endswith (py_lower (str ''report.docx'')) (str ''.pdf'')
   \<and> trace (snd (handle_document the_converter calm (upload (str ''report.docx'') 4096)
                   (snd (button_callback calm (Some (str ''pdf_to_word'')) fresh))))
       = [AnswerCallback, Reply PromptPdf, Reply PdfExtension]
   \<and> user_data (snd (handle_document the_converter calm (upload (str ''report.docx'') 4096)
                   (snd (button_callback calm (Some (str ''pdf_to_word'')) fresh))))
        (str ''conversion_type'')
       = Some (str ''pdf_to_word'')
   \<and> fs (snd (handle_document the_converter calm (upload (str ''report.docx'') 4096)
                   (snd (button_callback calm (Some (str ''pdf_to_word'')) fresh))))
       = Map.empty"
proof -
  let ?s = "snd (button_callback calm (Some (str ''pdf_to_word'')) fresh)"
  let ?doc = "\<lparr>file_id = str ''f1'', file_name = Some (str ''report.docx''),
               file_size = Some 4096\<rparr>"
  have doc: "message_document (upload (str ''report.docx'') 4096) = Some ?doc"
    by (simp add: upload_def)
  have pick: "user_data ?s (str ''conversion_type'') = Some (str ''pdf_to_word'')"
    by (simp add: press_pdf_to_word)
  have kind:
    "str ''pdf_to_word'' = str ''word_to_pdf'' \<or> str ''pdf_to_word'' = str ''pdf_to_word''"
    by simp
  have name: "file_name ?doc = Some (str ''report.docx'')" "str ''report.docx'' \<noteq> []"
    by (simp_all add: str_def)
  have differs: "str ''pdf_to_word'' \<noteq> str ''word_to_pdf''"
    by (simp add: str_def)
  have wrong: "\<not> py_endswith (py_lower (str ''report.docx'')) (str ''.pdf'')"
    by (simp add: lower_report_docx) (simp add: py_endswith_def str_def)
  have mismatch: "if str ''pdf_to_word'' = str ''word_to_pdf''
         then \<not> py_endswith (py_lower (str ''report.docx'')) (str ''.doc'')
              \<and> \<not> py_endswith (py_lower (str ''report.docx'')) (str ''.docx'')
         else \<not> py_endswith (py_lower (str ''report.docx'')) (str ''.pdf'')"
    using differs wrong by simp
  show ?thesis
    using pick wrong differs
      mismatched_extension_is_rejected [OF doc pick kind name mismatch, of the_converter calm]
    by (simp add: press_pdf_to_word)
qed

text \<open>
  C5. For a document that has passed the tests of the selection, of the file name and
  of the extension, and that reports a size: when the size is greater than
  20 * 1024 * 1024 the only event is the reply that the file is too large, and nothing
  is downloaded; when the size is at most 20 * 1024 * 1024, exactly that number
  included, the handler goes on to the transfer job: that reply is not sent, and the
  first event is the creation of the scratch directory.
\<close>

theorem oversize_upload_is_rejected:
  assumes "message_document upd = Some doc"
    and "user_data s (str ''conversion_type'') = Some kind" and "kind \<noteq> []"
    and "file_name doc = Some name" and "name \<noteq> []"
    and "check_extension kind name = None"
    and "file_size doc = Some bytes"
  shows "(bytes > 20 * 1024 * 1024 \<longrightarrow>
            fst (handle_document fc env upd s) = reply_outcome env TooLarge
            \<and> trace (snd (handle_document fc env upd s)) = trace s @ [Reply TooLarge]
            \<and> fs (snd (handle_document fc env upd s)) = fs s)
     \<and> (bytes \<le> 20 * 1024 * 1024 \<longrightarrow>
            handle_document fc env upd s
              = transfer_job fc env kind name (file_id doc) (effective_chat_id upd) s
            \<and> (\<exists>rest. trace (snd (handle_document fc env upd s))
                        = trace s @ Mkdir (str ''temp'') # rest
                    \<and> Reply TooLarge \<notin> set rest))"
proof -
  have job: "handle_document fc env upd s
      = transfer_job fc env kind name (file_id doc) (effective_chat_id upd) s"
    if "bytes \<le> 20 * 1024 * 1024"
    using assms that by (simp add: handle_document_def)
  have refusal: "handle_document fc env upd s = reply_text env TooLarge s"
    if "bytes > 20 * 1024 * 1024"
    using assms that by (simp add: handle_document_def)
  show ?thesis
    using job refusal
      transfer_job_trace [of fc env kind name "file_id doc" "effective_chat_id upd" s]
    by (auto simp: reply_text_def)
qed

theorem oversize_upload_is_rejected_witness:
  "check_extension (str ''word_to_pdf'') (str ''report.docx'') = None
   \<and> (20 * 1024 * 1024 + 1 :: int) > 20 * 1024 * 1024
   \<and> trace (snd (handle_document the_converter calm
                   (upload (str ''report.docx'') (20 * 1024 * 1024 + 1))
                   (selected (str ''word_to_pdf'')))) = [Reply TooLarge]
   \<and> (20 * 1024 * 1024 :: int) \<le> 20 * 1024 * 1024
   \<and> handle_document the_converter calm (upload (str ''report.docx'') (20 * 1024 * 1024))
         (selected (str ''word_to_pdf''))
       = transfer_job the_converter calm (str ''word_to_pdf'') (str ''report.docx'')
           (str ''f1'') 7 (selected (str ''word_to_pdf''))
   \<and> (\<exists>rest. trace (snd (handle_document the_converter calm
                          (upload (str ''report.docx'') (20 * 1024 * 1024))
                          (selected (str ''word_to_pdf''))))
                = Mkdir (str ''temp'') # rest
            \<and> Reply TooLarge \<notin> set rest)"
proof -
  let ?s = "selected (str ''word_to_pdf'')"
  have doc: "message_document (upload (str ''report.docx'') bytes)
      = Some \<lparr>file_id = str ''f1'', file_name = Some (str ''report.docx''),
              file_size = Some bytes\<rparr>" for bytes
    by (simp add: upload_def)
  have pick: "user_data ?s (str ''conversion_type'') = Some (str ''word_to_pdf'')"
    by (simp add: selected_def fresh_def)
  have kind: "str ''word_to_pdf'' \<noteq> []" and name: "str ''report.docx'' \<noteq> []"
    by (simp_all add: str_def)
  have silent: "trace ?s = []"
    by (simp add: selected_def fresh_def)
  have sized: "file_size \<lparr>file_id = str ''f1'', file_name = Some (str ''report.docx''),
              file_size = Some bytes\<rparr> = Some bytes" for bytes :: int
    by simp
  have named: "file_name \<lparr>file_id = str ''f1'', file_name = Some (str ''report.docx''),
              file_size = Some bytes\<rparr> = Some (str ''report.docx'')" for bytes :: int
    by simp
  have chat: "effective_chat_id (upload (str ''report.docx'') bytes) = 7" for bytes
    by (simp add: upload_def)
  show ?thesis
    using report_docx_passes silent chat
      oversize_upload_is_rejected
        [OF doc [of "20 * 1024 * 1024 + 1"] pick kind named name report_docx_passes sized,
         of the_converter calm]
      oversize_upload_is_rejected
        [OF doc [of "20 * 1024 * 1024"] pick kind named name report_docx_passes sized,
         of the_converter calm]
    by auto
qed

section \<open>The selection outlives a job\<close>

text \<open>
  C7. \<open>handle_document\<close> never writes the session: whatever the upload and however
  the job ends, a successful conversion included, the selected conversion is afterwards
  what it was before, so the next upload of the session is validated and converted under
  the same selection. In the witness a Word file is converted and delivered, the
  selection is still \<open>word_to_pdf\<close>, and a PDF uploaded next is turned down with the
  message of the Word conversion.
\<close>

theorem handle_document_keeps_selection:
  "user_data (snd (handle_document fc env upd s)) = user_data s"
  using transfer_job_trace [of fc env]
  by (simp add: handle_document_def reply_text_def split: option.splits)

theorem handle_document_keeps_selection_witness:
  "fst (handle_document the_converter calm (upload (str ''report.docx'') 4096)
          (selected (str ''word_to_pdf''))) = None
   \<and> SendDocument 7 (str ''report.pdf'') (PdfDoc test_paragraphs) PdfCaption
       \<in> set (trace (snd (handle_document the_converter calm (upload (str ''report.docx'') 4096)
                            (selected (str ''word_to_pdf'')))))
   \<and> user_data (snd (handle_document the_converter calm (upload (str ''report.docx'') 4096)
                       (selected (str ''word_to_pdf'')))) (str ''conversion_type'')
       = Some (str ''word_to_pdf'')
   \<and> last (trace (snd (handle_document the_converter calm (upload (str ''scan.pdf'') 4096)
                         (snd (handle_document the_converter calm
                                 (upload (str ''report.docx'') 4096)
                                 (selected (str ''word_to_pdf'')))))))
       = Reply WordExtension"
proof -
  let ?first = "handle_document the_converter calm (upload (str ''report.docx'') 4096)
                  (selected (str ''word_to_pdf''))"
  have kept: "user_data (snd ?first) = user_data (selected (str ''word_to_pdf''))"
    using handle_document_keeps_selection
      [of the_converter calm "upload (str ''report.docx'') 4096" "selected (str ''word_to_pdf'')"]
    by simp
  have pick: "user_data (snd ?first) (str ''conversion_type'') = Some (str ''word_to_pdf'')"
    unfolding kept by (simp add: selected_def fresh_def)
  have normal: "fst ?first = None"
    and sent: "SendDocument 7 (str ''report.pdf'') (PdfDoc test_paragraphs) PdfCaption
       \<in> set (trace (snd ?first))"
    by (simp_all add: handle_report_upload job_with_calm delivered_def)
  have "str ''word_to_pdf'' \<noteq> []" and "str ''scan.pdf'' \<noteq> []"
    by (simp_all add: str_def)
  then have "last (trace (snd (handle_document the_converter calm
      (upload (str ''scan.pdf'') 4096) (snd ?first)))) = Reply WordExtension"
    using pick by (simp add: handle_document_def upload_def scan_pdf_fails reply_text_def)
  with pick normal sent show ?thesis
    by simp
qed

section \<open>The button handler\<close>




section \<open>The temporary files of a transfer job\<close>

text \<open>
  C2, amended. Take any transfer job (lines 128 to 202) and a path the job has recorded:
  the download path, from the moment it is assigned, or the output path, once the
  converter has returned it. When the job has ended, on whatever path through the
  \<open>try\<close> block and the \<open>except\<close> clauses, that path is gone from the file system,
  unless the operating system refuses its deletion: then the deletion was asked for,
  the failure is logged and the file is what it was when the \<open>try\<close> block was left
  (the cleanup is best effort). The deletion of the path is asked for exactly once when
  the path exists as the \<open>try\<close> block is left, and never otherwise. The witness is a
  delivered conversion, a download that breaks off, and a delivered conversion whose
  deletions are refused.
\<close>

theorem transfer_job_cleans_up:
  assumes t: "try_block fc env kind name fid chat s = (raised, download_path, output_path, s1)"
    and rec: "download_path = Some p \<or> output_path = Some p"
  shows "(fs (snd (transfer_job fc env kind name fid chat s)) p = None
          \<or> fs (snd (transfer_job fc env kind name fid chat s)) p = fs s1 p
             \<and> Remove p \<in> set (emitted s (snd (transfer_job fc env kind name fid chat s)))
             \<and> (\<exists>e. fst (os_remove env p s1) = Some e
                     \<and> LogError (CleanupFailed p e)
                         \<in> set (emitted s (snd (transfer_job fc env kind name fid chat s)))))
     \<and> length (filter (\<lambda>ev. ev = Remove p)
                 (emitted s (snd (transfer_job fc env kind name fid chat s))))
         = (if fs s1 p = None then 0 else 1)"
proof -
  obtain r2 s2 where x: "except_clauses env raised s1 = (r2, s2)"
    by (cases "except_clauses env raised s1")
  obtain r3 s3 where f: "finally_clause env download_path output_path s2 = (r3, s3)"
    by (cases "finally_clause env download_path output_path s2")
  have same: "fs s2 = fs s1"
    using x by (rule except_clauses_fs)
  have verdict: "fst (os_remove env p s2) = fst (os_remove env p s1)"
    using same by (intro os_remove_verdict) simp
  have apart: "download_path = Some p \<and> output_path \<noteq> Some p
      \<or> output_path = Some p \<and> download_path \<noteq> Some p"
    using rec try_block_paths_differ [of fc env kind name fid chat s raised p p s1] t
    by auto
  from finally_clause_effect [OF f apart] obtain cleanup where
    t3: "trace s3 = trace s2 @ cleanup"
    and count: "length (filter (\<lambda>ev. ev = Remove p) cleanup) = (if fs s2 p = None then 0 else 1)"
    and fate: "fs s3 p = None
        \<or> fs s3 p = fs s2 p \<and> Remove p \<in> set cleanup
           \<and> (\<exists>e. fst (os_remove env p s2) = Some e
                   \<and> LogError (CleanupFailed p e) \<in> set cleanup)"
    by blast
  have r3: "r3 = None"
    using finally_clause_trace [OF f] by simp
  have job: "transfer_job fc env kind name fid chat s = (r2, s3)"
    using t x f r3 by (simp add: transfer_job_def)
  from try_block_trace [OF t] obtain rest where
    t1: "trace s1 = trace s @ Mkdir (str ''temp'') # rest" and w1: "list_all working_event rest"
    by blast
  from except_clauses_step [OF x] obtain more where
    t2: "trace s2 = trace s1 @ more" and w2: "list_all working_event more"
    by (auto simp: job_step_def)
  have em: "emitted s s3 = Mkdir (str ''temp'') # (rest @ more) @ cleanup"
    using t1 t2 t3 by (simp add: emitted_def)
  have quiet: "filter (\<lambda>ev. ev = Remove p) (rest @ more) = []"
    using w1 w2 by (intro no_remove_among_working) simp
  have "length (filter (\<lambda>ev. ev = Remove p) (emitted s s3)) = (if fs s1 p = None then 0 else 1)"
    using count quiet same by (simp add: em)
  moreover have "fs s3 p = None
      \<or> fs s3 p = fs s1 p \<and> Remove p \<in> set (emitted s s3)
         \<and> (\<exists>e. fst (os_remove env p s1) = Some e
                 \<and> LogError (CleanupFailed p e) \<in> set (emitted s s3))"
    using fate same verdict by (auto simp: em)
  ultimately show ?thesis
    by (simp add: job)
qed

theorem transfer_job_cleans_up_witness:
  "try_block the_converter calm (str ''word_to_pdf'') (str ''report.docx'') (str ''f1'') 7
     (selected (str ''word_to_pdf''))
     = (None, Some (str ''temp/report.docx''), Some (str ''/srv/temp/report.pdf''), delivered)
   \<and> fs (snd (transfer_job the_converter calm (str ''word_to_pdf'') (str ''report.docx'')
                (str ''f1'') 7 (selected (str ''word_to_pdf'')))) (str ''temp/report.docx'')
       = None
   \<and> fs (snd (transfer_job the_converter calm (str ''word_to_pdf'') (str ''report.docx'')
                (str ''f1'') 7 (selected (str ''word_to_pdf'')))) (str ''/srv/temp/report.pdf'')
       = None
   \<and> length (filter (\<lambda>ev. ev = Remove (str ''temp/report.docx''))
               (emitted (selected (str ''word_to_pdf''))
                  (snd (transfer_job the_converter calm (str ''word_to_pdf'')
                          (str ''report.docx'') (str ''f1'') 7
                          (selected (str ''word_to_pdf''))))))
       = 1
   \<and> length (filter (\<lambda>ev. ev = Remove (str ''/srv/temp/report.pdf''))
               (emitted (selected (str ''word_to_pdf''))
                  (snd (transfer_job the_converter calm (str ''word_to_pdf'')
                          (str ''report.docx'') (str ''f1'') 7
                          (selected (str ''word_to_pdf''))))))
       = 1
   \<and> try_block the_converter interrupted (str ''word_to_pdf'') (str ''report.docx'')
         (str ''f1'') 7 (selected (str ''word_to_pdf''))
       = (Some TelegramError, Some (str ''temp/report.docx''), None, broken_off)
   \<and> fs broken_off (str ''temp/report.docx'') = Some (File Partial)
   \<and> fs (snd (transfer_job the_converter interrupted (str ''word_to_pdf'')
                (str ''report.docx'') (str ''f1'') 7 (selected (str ''word_to_pdf''))))
        (str ''temp/report.docx'')
       = None
   \<and> try_block the_converter refusing (str ''word_to_pdf'') (str ''report.docx'')
         (str ''f1'') 7 (selected (str ''word_to_pdf''))
       = (None, Some (str ''temp/report.docx''), Some (str ''/srv/temp/report.pdf''), delivered)
   \<and> fst (os_remove refusing (str ''temp/report.docx'') delivered) = Some OSError
   \<and> fs (snd (transfer_job the_converter refusing (str ''word_to_pdf'') (str ''report.docx'')
                (str ''f1'') 7 (selected (str ''word_to_pdf'')))) (str ''temp/report.docx'')
       = fs delivered (str ''temp/report.docx'')
   \<and> Remove (str ''temp/report.docx'')
       \<in> set (emitted (selected (str ''word_to_pdf''))
                (snd (transfer_job the_converter refusing (str ''word_to_pdf'')
                        (str ''report.docx'') (str ''f1'') 7
                        (selected (str ''word_to_pdf'')))))
   \<and> LogError (CleanupFailed (str ''temp/report.docx'') OSError)
       \<in> set (emitted (selected (str ''word_to_pdf''))
                (snd (transfer_job the_converter refusing (str ''word_to_pdf'')
                        (str ''report.docx'') (str ''f1'') 7
                        (selected (str ''word_to_pdf'')))))"
proof -
  have run: "try_block the_converter calm (str ''word_to_pdf'') (str ''report.docx'')
      (str ''f1'') 7 (selected (str ''word_to_pdf''))
     = (None, Some (str ''temp/report.docx''), Some (str ''/srv/temp/report.pdf''), delivered)"
    using try_block_delivers [of "\<lambda>p. None"] by (simp add: calm_unchanged)
  have refused_run: "try_block the_converter refusing (str ''word_to_pdf'') (str ''report.docx'')
      (str ''f1'') 7 (selected (str ''word_to_pdf''))
     = (None, Some (str ''temp/report.docx''), Some (str ''/srv/temp/report.pdf''), delivered)"
    using try_block_delivers [of "\<lambda>p. Some OSError"] by (simp add: refusing_def)
  have source: "Some (str ''temp/report.docx'') = Some (str ''temp/report.docx'')
      \<or> Some (str ''/srv/temp/report.pdf'') = Some (str ''temp/report.docx'')"
    by simp
  have target: "Some (str ''temp/report.docx'') = Some (str ''/srv/temp/report.pdf'')
      \<or> Some (str ''/srv/temp/report.pdf'') = Some (str ''/srv/temp/report.pdf'')"
    by simp
  have partial: "Some (str ''temp/report.docx'') = Some (str ''temp/report.docx'')
      \<or> None = Some (str ''temp/report.docx'')"
    by simp
  have broken: "fs broken_off (str ''temp/report.docx'') = Some (File Partial)"
    by (simp add: broken_off_def)
  have granted:
    "fst (os_remove calm (str ''temp/report.docx'') delivered) = None"
    "fst (os_remove calm (str ''/srv/temp/report.pdf'') delivered) = None"
    "fst (os_remove interrupted (str ''temp/report.docx'') broken_off) = None"
    by (simp_all add: os_remove_def Let_def delivered_files calm_removes broken
          interrupted_fields)
  have refused: "fst (os_remove refusing (str ''temp/report.docx'') delivered) = Some OSError"
    by (simp add: os_remove_def Let_def delivered_files refusing_removes)
  have stays: "fs (snd (transfer_job the_converter refusing (str ''word_to_pdf'')
      (str ''report.docx'') (str ''f1'') 7 (selected (str ''word_to_pdf''))))
      (str ''temp/report.docx'') \<noteq> None"
    by (simp add: job_with_refusing delivered_files)
  show ?thesis
    using run refused_run try_block_interrupted broken granted refused stays delivered_files
      transfer_job_cleans_up [OF run source]
      transfer_job_cleans_up [OF run target]
      transfer_job_cleans_up [OF try_block_interrupted partial]
      transfer_job_cleans_up [OF refused_run source]
    by auto
qed

text \<open>
  C2 as the specification words it fails: when the operating system refuses the
  deletions, the job ends normally, the converted file has been sent, and both the
  downloaded Word file and the PDF made from it are still in the scratch directory.
\<close>

theorem download_left_behind_counterexample:
  "fst (handle_document the_converter refusing (upload (str ''report.docx'') 4096)
          (selected (str ''word_to_pdf''))) = None
   \<and> fs (snd (handle_document the_converter refusing (upload (str ''report.docx'') 4096)
                (selected (str ''word_to_pdf'')))) (str ''temp/report.docx'')
       = Some (File (WordDoc test_paragraphs))
   \<and> fs (snd (handle_document the_converter refusing (upload (str ''report.docx'') 4096)
                (selected (str ''word_to_pdf'')))) (str ''/srv/temp/report.pdf'')
       = Some (File (PdfDoc test_paragraphs))"
  by (simp add: handle_report_upload job_with_refusing delivered_files)

section \<open>The text blocks of the PDF\<close>

text \<open>
  C1, amended. For a Word file with a valid extension whose PDF is written, the converter
  returns the path of the PDF, and the PDF holds one text block for each paragraph that
  is not made of whitespace only (the empty paragraph included among the skipped), in
  the order of the paragraphs, each block being the paragraph without its code points
  from 128 on. Every code point below 128 is kept, control characters included. In the
  witness the three paragraphs of test_conversion.py give exactly these three blocks, in
  that order, none of them empty.
\<close>

theorem word_to_pdf_text_blocks:
  assumes "word_extension_valid p"
    and "fs s p = Some (File (WordDoc paragraphs))"
    and "pdf_output_outcome env = WriteOk"
  shows "fst (word_to_pdf fc env p s)
       = Inr (path_join (temp_dir fc) (path_stem p @ str ''.pdf''))
    \<and> fs (snd (word_to_pdf fc env p s)) (path_join (temp_dir fc) (path_stem p @ str ''.pdf''))
       = Some (File (PdfDoc (map (filter (\<lambda>c. c < 128))
                               (filter (\<lambda>t. \<not> list_all py_isspace t) paragraphs))))"
  using word_to_pdf_writes [OF assms, of fc] by simp

theorem word_to_pdf_text_blocks_witness:
  "word_extension_valid (str ''temp/a.docx'')
   \<and> fs one_file (str ''temp/a.docx'') = Some (File (WordDoc test_paragraphs))
   \<and> pdf_output_outcome calm = WriteOk
   \<and> fst (word_to_pdf the_converter calm (str ''temp/a.docx'') one_file)
       = Inr (str ''/srv/temp/a.pdf'')
   \<and> fs (snd (word_to_pdf the_converter calm (str ''temp/a.docx'') one_file))
        (str ''/srv/temp/a.pdf'')
       = Some (File (PdfDoc [str ''This is a test document.'',
                             str ''It contains multiple paragraphs.'',
                             str ''Used for testing file conversion.'']))
   \<and> [] \<notin> set test_paragraphs"
proof -
  have source: "fs one_file (str ''temp/a.docx'') = Some (File (WordDoc test_paragraphs))"
    by (simp add: one_file_def)
  have writer: "pdf_output_outcome calm = WriteOk"
    by (simp add: calm_def)
  have filled: "[] \<notin> set test_paragraphs"
    by (simp add: test_paragraphs_def str_def)
  show ?thesis
    using a_docx_valid source writer filled
      word_to_pdf_text_blocks [OF a_docx_valid source writer, of the_converter]
    by (simp add: output_path_a test_paragraphs_kept) (simp add: test_paragraphs_def)
qed

text \<open>
  C1 as the specification words it fails: a paragraph that holds a tab and a delete
  character (code points 9 and 127, both outside the printable range 32 to 126) between
  two letters gives a text block that still holds both, where the specification's
  reading gives the two letters only.
\<close>

theorem control_characters_kept_counterexample:
  "fs (snd (word_to_pdf the_converter calm (str ''temp/a.docx'') tabbed))
      (str ''/srv/temp/a.pdf'')
     = Some (File (PdfDoc [[97, 9, 127, 98]]))
   \<and> spec_text_blocks [[97, 9, 127, 98]] = [[97, 98]]
   \<and> \<not> printable7 9 \<and> \<not> printable7 127"
proof -
  have source: "fs tabbed (str ''temp/a.docx'') = Some (File (WordDoc [[97, 9, 127, 98]]))"
    by (simp add: tabbed_def)
  have writer: "pdf_output_outcome calm = WriteOk"
    by (simp add: calm_def)
  have "py_strip [97, 9, 127, 98] \<noteq> []"
    by (simp add: py_strip_empty_iff py_isspace_def)
  then have claimed: "spec_text_blocks [[97, 9, 127, 98]] = [[97, 98]]"
    by (simp add: spec_text_blocks_def printable7_def)
  show ?thesis
    using word_to_pdf_writes [OF a_docx_valid source writer, of the_converter] claimed
    by (simp add: output_path_a py_isspace_def printable7_def)
qed

section \<open>Extension matching ignores case\<close>

text \<open>
  C10. Both extension tests read the lowercased text only: two names with the same
  lowercased form get the same verdict from the handler's test and from the tests of
  the two converters. REPORT.DOCX passes the handler's test for \<open>word_to_pdf\<close> and
  Report.PDF the one for \<open>pdf_to_word\<close>, and the paths they are downloaded to pass
  the tests of the converters.
\<close>

theorem extension_matching_ignores_case:
  "(py_lower a = py_lower b \<longrightarrow>
      check_extension kind a = check_extension kind b
      \<and> word_extension_valid a = word_extension_valid b
      \<and> pdf_extension_valid a = pdf_extension_valid b)
   \<and> check_extension (str ''word_to_pdf'') (str ''REPORT.DOCX'') = None
   \<and> check_extension (str ''pdf_to_word'') (str ''Report.PDF'') = None
   \<and> word_extension_valid (path_join (str ''temp'') (str ''REPORT.DOCX''))
   \<and> pdf_extension_valid (path_join (str ''temp'') (str ''Report.PDF''))"
proof -
  have general: "check_extension kind a = check_extension kind b
      \<and> word_extension_valid a = word_extension_valid b
      \<and> pdf_extension_valid a = pdf_extension_valid b" if same: "py_lower a = py_lower b"
  proof -
    have "py_lower (path_suffix a) = py_lower (path_suffix b)"
      using same by (simp add: path_suffix_lower [symmetric])
    then show ?thesis
      using same by (simp add: check_extension_def word_extension_valid_def pdf_extension_valid_def)
  qed
  have word: "check_extension (str ''word_to_pdf'') (str ''REPORT.DOCX'') = None"
    by (simp add: check_extension_def upper_names) (simp add: py_endswith_def str_def)
  have pdf: "check_extension (str ''pdf_to_word'') (str ''Report.PDF'') = None"
    by (simp add: check_extension_def upper_names) (simp add: py_endswith_def str_def)
  have word_path: "word_extension_valid (path_join (str ''temp'') (str ''REPORT.DOCX''))"
    by (simp add: word_extension_valid_def path_join_def path_str_def path_root_def
          path_suffix_def path_name_def path_parts_def py_rfind_def py_lower_def
          py_lower_char_def str_def)
  have pdf_path: "pdf_extension_valid (path_join (str ''temp'') (str ''Report.PDF''))"
    by (simp add: pdf_extension_valid_def path_join_def path_str_def path_root_def
          path_suffix_def path_name_def path_parts_def py_rfind_def py_lower_def
          py_lower_char_def str_def)
  from general word pdf word_path pdf_path show ?thesis
    by blast
qed

theorem extension_matching_ignores_case_witness:
  "py_lower (str ''REPORT.DOCX'') = py_lower (str ''report.docx'')
   \<and> check_extension (str ''word_to_pdf'') (str ''REPORT.DOCX'')
       = check_extension (str ''word_to_pdf'') (str ''report.docx'')
   \<and> word_extension_valid (str ''REPORT.DOCX'') = word_extension_valid (str ''report.docx'')
   \<and> pdf_extension_valid (str ''REPORT.DOCX'') = pdf_extension_valid (str ''report.docx'')
   \<and> check_extension (str ''word_to_pdf'') (str ''REPORT.DOCX'') = None
   \<and> check_extension (str ''pdf_to_word'') (str ''Report.PDF'') = None"
proof -
  have same: "py_lower (str ''REPORT.DOCX'') = py_lower (str ''report.docx'')"
    by (simp add: upper_names lower_report_docx)
  show ?thesis
    using same
      extension_matching_ignores_case
        [of "str ''REPORT.DOCX''" "str ''report.docx''" "str ''word_to_pdf''"]
    by blast
qed

end
